theory Spec2Isabelle
  imports Complex_Main "HOL-Library.Signed_Division"
begin

section \<open>The 2D-GO shooter: data model\<close>

text \<open>
  The embedding follows \<^verbatim>\<open>main.go\<close>. Conventions:
  \<^item> Go's \<^verbatim>\<open>float64\<close> is modelled by \<^typ>\<open>real\<close>. The coordinates of the player, the
    player bullets and the enemies are integers of small magnitude, on which
    \<^verbatim>\<open>float64\<close> arithmetic is exact. The enemy bullets are where the game leaves the
    integers: the square root, the division and the product that give a bullet its
    velocity, the additions that move it and the sums of its on-screen test are rounded
    to the nearest \<^verbatim>\<open>float64\<close> (\<open>float64\<close> below). \<open>rectsOverlap\<close> is taken over the
    reals: its sums are exact on the boxes of the player, the player bullets and the
    enemies, and are not rounded on the box of an enemy bullet. Infinities, NaN and
    subnormal numbers are outside the model.
  \<^item> Go's \<^verbatim>\<open>int\<close> is taken as 64 bits wide and modelled by \<^typ>\<open>int\<close>, with the
    two's-complement wrap-around written out (\<open>wrap64\<close>) wherever an operand in the
    range of \<^verbatim>\<open>int\<close> can overflow (not at \<^verbatim>\<open>spawnInterval -= 5\<close>, which runs
    under \<^verbatim>\<open>spawnInterval > 10\<close>). Go's \<^verbatim>\<open>/\<close> and \<^verbatim>\<open>%\<close> on
    \<^verbatim>\<open>int\<close> truncate toward zero: \<open>sdiv\<close> and \<open>smod\<close>.
  \<^item> Pointers to structs (\<^verbatim>\<open>*Player\<close>, \<^verbatim>\<open>[]*Bullet\<close>, ...) become values: every
    pointer is created once and stored in exactly one slice, so there is no aliasing.
    A \<^verbatim>\<open>nil\<close> player is \<open>None\<close>.
  \<^item> A run-time panic is a value of type \<open>panic\<close>; a function that can panic
    returns \<open>panic + _\<close>.
  \<^item> What the code reads from its libraries (pressed keys, the mouse edge, the draws of
    \<^verbatim>\<open>math/rand\<close>, the background image, the file system) is passed in explicitly.
\<close>

definition screenWidth :: int where
  "screenWidth = 640"

definition screenHeight :: int where
  "screenHeight = 480"

definition wrap64 :: "int \<Rightarrow> int" where
  "wrap64 x = (x + 2 ^ 63) mod 2 ^ 64 - 2 ^ 63"

datatype panic = IntegerDivideByZero | AssignmentToNilMap

datatype Key =
    KeyW | KeyS | KeyA | KeyD
  | KeyArrowUp | KeyArrowDown | KeyArrowLeft | KeyArrowRight
  | KeyEnter | KeyEscape | KeyBackspace
  | KeyOther nat

record viewport =
  x16 :: int
  y16 :: int

record Player =
  X :: real
  Y :: real
  Size :: real

definition NewPlayer :: "real \<Rightarrow> real \<Rightarrow> Player" where
  "NewPlayer x y = \<lparr>Player.X = x, Player.Y = y, Player.Size = 32\<rparr>"

record Bullet =
  X :: real
  Y :: real
  SpeedY :: real
  Size :: real

record Enemy =
  X :: real
  Y :: real
  Size :: real
  SpeedY :: real
  Cooldown :: int
  Dead :: bool

record EnemyBullet =
  X :: real
  Y :: real
  SpeedX :: real
  SpeedY :: real
  Size :: real

record Game =
  keys :: "Key list"
  viewport :: viewport
  player :: "Player option"
  bullets :: "Bullet list"
  enemies :: "Enemy list"
  enemyBullets :: "EnemyBullet list"
  spawnCounter :: int
  spawnInterval :: int
  elapsedFrames :: int
  gameState :: string
  score :: int
  deathScore :: int
  username :: string
  usernameInput :: string
  lastGameState :: string
  dropdownOpen :: bool
  selectedScreen :: int
  customWidth :: int
  customHeight :: int
  customInput :: bool
  customInputStr :: string

text \<open>\<^verbatim>\<open>ScoreData.HighScores\<close> is a Go map, which may be \<^verbatim>\<open>nil\<close> (\<open>None\<close>).\<close>

record ScoreData =
  HighScores :: "(string \<rightharpoonup> int) option"

text \<open>
  The process state: the \<^verbatim>\<open>Game\<close> object, the global \<^verbatim>\<open>scores\<close> and the content of
  the file \<^verbatim>\<open>scores.json\<close> (\<open>None\<close> when \<^verbatim>\<open>os.Open\<close> fails on it).
\<close>

record World =
  game :: Game
  scores :: ScoreData
  scoreFile :: "string option"

text \<open>What one call of \<^verbatim>\<open>Update\<close> reads from outside the program.\<close>

record Input =
  pressedKeys :: "Key list"
  isKeyPressed :: "Key \<Rightarrow> bool"
  mouseLeftJustPressed :: bool
  randSource :: "nat \<Rightarrow> nat"
  bgImageH :: "int option"
  createOK :: bool
  jsonEncode :: "ScoreData \<Rightarrow> string"

section \<open>Utility functions\<close>

text \<open>
  Rounding to \<^verbatim>\<open>float64\<close>: to the nearest number with 53 significant bits, ties to
  the even one (IEEE 754 binary64, in the normal range).
\<close>

definition roundEven :: "real \<Rightarrow> int" where
  "roundEven y =
     (let f = \<lfloor>y\<rfloor>
      in if y - of_int f < 1 / 2 then f
         else if 1 / 2 < y - of_int f then f + 1
         else if even f then f else f + 1)"

definition float64 :: "real \<Rightarrow> real" where
  "float64 x =
     (if x = 0 then 0
      else (let e = \<lfloor>log 2 \<bar>x\<bar>\<rfloor>;
                ulp = 2 powr (of_int e - 52)
            in ulp * of_int (roundEven (x / ulp))))"

definition rectsOverlap :: "real \<Rightarrow> real \<Rightarrow> real \<Rightarrow> real \<Rightarrow> real \<Rightarrow> real \<Rightarrow> bool" where
  "rectsOverlap x1 y1 s1 x2 y2 s2 \<longleftrightarrow>
     x1 < x2 + s2 \<and> x2 < x1 + s1 \<and> y1 < y2 + s2 \<and> y2 < y1 + s1"

text \<open>
  \<^verbatim>\<open>loadScores\<close>: the map is made empty, the file is opened (on failure: return), and
  \<^verbatim>\<open>json.NewDecoder(f).Decode(&scores)\<close> runs on the content with its error dropped.
  \<^verbatim>\<open>Decode\<close> belongs to \<^verbatim>\<open>encoding/json\<close>; it is the parameter \<open>jsonDecode\<close>, which
  maps the content and the target to whether an error is returned and to the target
  afterwards.
\<close>

definition loadScores :: "(string \<Rightarrow> ScoreData \<Rightarrow> bool \<times> ScoreData) \<Rightarrow> World \<Rightarrow> World" where
  "loadScores jsonDecode w =
     (let w1 = w\<lparr>scores := (scores w)\<lparr>HighScores := Some Map.empty\<rparr>\<rparr>
      in case scoreFile w1 of
           None \<Rightarrow> w1
         | Some content \<Rightarrow> w1\<lparr>scores := snd (jsonDecode content (scores w1))\<rparr>)"

text \<open>\<^verbatim>\<open>saveScores\<close>: when \<^verbatim>\<open>os.Create\<close> fails nothing is written.\<close>

definition saveScores :: "Input \<Rightarrow> World \<Rightarrow> World" where
  "saveScores inp w =
     (if \<not> createOK inp then w
      else w\<lparr>scoreFile := Some (jsonEncode inp (scores w))\<rparr>)"

text \<open>Reading a Go map: a missing key, and any key of a \<^verbatim>\<open>nil\<close> map, reads as 0.\<close>

definition lookupScore :: "ScoreData \<Rightarrow> string \<Rightarrow> int" where
  "lookupScore sd u =
     (case HighScores sd of
        None \<Rightarrow> 0
      | Some m \<Rightarrow> (case m u of None \<Rightarrow> 0 | Some v \<Rightarrow> v))"

text \<open>\<^verbatim>\<open>rand.Intn(n)\<close> for a constant \<open>n > 0\<close>: the \<open>i\<close>-th draw of the tick, in \<open>[0, n)\<close>.\<close>

definition Intn :: "(nat \<Rightarrow> nat) \<Rightarrow> nat \<Rightarrow> nat \<Rightarrow> int" where
  "Intn rnd i n = int (rnd i mod n)"

section \<open>Game methods\<close>

text \<open>
  \<^verbatim>\<open>viewport.Move\<close>. The argument is the global \<^verbatim>\<open>bgImage\<close>: \<open>None\<close> when it is
  \<^verbatim>\<open>nil\<close>, else the height \<^verbatim>\<open>bgImage.Bounds().Size().Y\<close>. \<^verbatim>\<open>%=\<close> panics on a zero
  divisor.
\<close>

definition Move :: "int option \<Rightarrow> viewport \<Rightarrow> panic + viewport" where
  "Move bg p =
     (case bg of
        None \<Rightarrow> Inr p
      | Some sY \<Rightarrow>
          (let maxY16 = wrap64 (sY * 16);
               p1 = p\<lparr>y16 := wrap64 (y16 p + sY sdiv 32)\<rparr>
           in if maxY16 = 0 then Inl IntegerDivideByZero
              else Inr (p1\<lparr>y16 := y16 p1 smod maxY16\<rparr>)))"

definition Reset :: "World \<Rightarrow> World" where
  "Reset w =
     w\<lparr>game := (game w)\<lparr>
          player := Some (NewPlayer (real_of_int (screenWidth sdiv 2))
                                    (real_of_int (screenHeight sdiv 2))),
          bullets := [],
          enemies := [],
          enemyBullets := [],
          spawnCounter := 0,
          spawnInterval := 90,
          elapsedFrames := 0,
          score := 0\<rparr>\<rparr>"

subsection \<open>\<^verbatim>\<open>Game.Update\<close>, the playing branch (from \<^verbatim>\<open>g.viewport.Move()\<close> on)\<close>

text \<open>Player movement, then the clamp to the screen; \<^verbatim>\<open>speed = 4.0\<close>.\<close>

definition movePlayer :: "Input \<Rightarrow> Player \<Rightarrow> Player" where
  "movePlayer inp p0 =
     (let speed = 4;
          p1 = (if isKeyPressed inp KeyW \<or> isKeyPressed inp KeyArrowUp
                then p0\<lparr>Player.Y := Player.Y p0 - speed\<rparr> else p0);
          p2 = (if isKeyPressed inp KeyS \<or> isKeyPressed inp KeyArrowDown
                then p1\<lparr>Player.Y := Player.Y p1 + speed\<rparr> else p1);
          p3 = (if isKeyPressed inp KeyA \<or> isKeyPressed inp KeyArrowLeft
                then p2\<lparr>Player.X := Player.X p2 - speed\<rparr> else p2);
          p4 = (if isKeyPressed inp KeyD \<or> isKeyPressed inp KeyArrowRight
                then p3\<lparr>Player.X := Player.X p3 + speed\<rparr> else p3);
          p5 = (if Player.X p4 < 0 then p4\<lparr>Player.X := 0\<rparr> else p4);
          p6 = (if Player.Y p5 < 0 then p5\<lparr>Player.Y := 0\<rparr> else p5);
          p7 = (if Player.X p6 > real_of_int screenWidth - Player.Size p6
                then p6\<lparr>Player.X := real_of_int screenWidth - Player.Size p6\<rparr> else p6);
          p8 = (if Player.Y p7 > real_of_int screenHeight - Player.Size p7
                then p7\<lparr>Player.Y := real_of_int screenHeight - Player.Size p7\<rparr> else p7)
      in p8)"

definition playerMovement :: "Input \<Rightarrow> Game \<Rightarrow> Game" where
  "playerMovement inp g =
     (case player g of
        None \<Rightarrow> g
      | Some p \<Rightarrow> g\<lparr>player := Some (movePlayer inp p)\<rparr>)"

text \<open>Shooting.\<close>

definition newBullet :: "Player \<Rightarrow> Bullet" where
  "newBullet p =
     \<lparr>Bullet.X = Player.X p + Player.Size p / 2 - 3,
      Bullet.Y = Player.Y p + Player.Size p,
      Bullet.SpeedY = 8,
      Bullet.Size = 6\<rparr>"

definition shooting :: "Input \<Rightarrow> Game \<Rightarrow> Game" where
  "shooting inp g =
     (case player g of
        None \<Rightarrow> g
      | Some p \<Rightarrow>
          if mouseLeftJustPressed inp then g\<lparr>bullets := bullets g @ [newBullet p]\<rparr>
          else g)"

text \<open>Gradually decrease \<^verbatim>\<open>spawnInterval\<close>, but not below 10.\<close>

definition decreaseSpawnInterval :: "Game \<Rightarrow> Game" where
  "decreaseSpawnInterval g =
     (if elapsedFrames g smod 120 = 0 \<and> spawnInterval g > 10
      then (let g1 = g\<lparr>spawnInterval := spawnInterval g - 5\<rparr>
            in if spawnInterval g1 < 10 then g1\<lparr>spawnInterval := 10\<rparr> else g1)
      else g)"

text \<open>
  Enemy spawning. The struct literal draws \<^verbatim>\<open>X\<close> first, then \<^verbatim>\<open>Cooldown\<close>; the
  second component of the result is the number of draws consumed.
\<close>

fun spawnEnemies :: "(nat \<Rightarrow> nat) \<Rightarrow> nat \<Rightarrow> nat \<Rightarrow> Enemy list" where
  "spawnEnemies rnd c 0 = []"
| "spawnEnemies rnd c (Suc n) =
     \<lparr>Enemy.X = real_of_int (32 + Intn rnd c (nat (screenWidth - 64))),
      Enemy.Y = real_of_int screenHeight,
      Enemy.Size = 32,
      Enemy.SpeedY = - 2,
      Enemy.Cooldown = 30 + Intn rnd (c + 1) 60,
      Enemy.Dead = False\<rparr> # spawnEnemies rnd (c + 2) n"

definition enemySpawning :: "(nat \<Rightarrow> nat) \<Rightarrow> Game \<Rightarrow> Game \<times> nat" where
  "enemySpawning rnd g =
     (let g1 = g\<lparr>spawnCounter := wrap64 (spawnCounter g + 1)\<rparr>
      in if spawnCounter g1 \<ge> spawnInterval g1
         then (let g2 = g1\<lparr>spawnCounter := 0\<rparr>;
                   numEnemies = wrap64 (1 + wrap64 (90 - spawnInterval g2) sdiv 20)
               in (g2\<lparr>enemies := enemies g2 @ spawnEnemies rnd 0 (nat numEnemies)\<rparr>,
                   2 * nat numEnemies))
         else (g1, 0))"

text \<open>
  Enemy movement and shooting, for one enemy: the enemy kept (\<open>None\<close> when it has left
  the screen), the bullet fired (if any), and the next draw's index. \<^verbatim>\<open>math.Sqrt\<close>,
  \<^verbatim>\<open>/\<close> and \<^verbatim>\<open>*\<close> round their results, in the order \<^verbatim>\<open>(dx / length) * speed\<close>.
\<close>

definition enemyStep ::
  "(nat \<Rightarrow> nat) \<Rightarrow> nat \<Rightarrow> Player option \<Rightarrow> Enemy \<Rightarrow> Enemy option \<times> EnemyBullet option \<times> nat" where
  "enemyStep rnd c pl e =
     (let e1 = e\<lparr>Enemy.Y := Enemy.Y e + Enemy.SpeedY e\<rparr>
      in if Enemy.Y e1 + Enemy.Size e1 < 0 then (None, None, c)
         else (case pl of
                 None \<Rightarrow> (Some e1, None, c)
               | Some p \<Rightarrow>
                   (let e2 = e1\<lparr>Cooldown := wrap64 (Cooldown e1 - 1)\<rparr>
                    in if Cooldown e2 \<le> 0
                       then (let dx = (Player.X p + Player.Size p / 2) - (Enemy.X e2 + Enemy.Size e2 / 2);
                                 dy = (Player.Y p + Player.Size p / 2) - (Enemy.Y e2 + Enemy.Size e2 / 2);
                                 dist = dx * dx + dy * dy
                             in if dist > 0
                                then (let length = float64 (sqrt dist);
                                          speed = 5;
                                          eb = \<lparr>EnemyBullet.X = Enemy.X e2 + Enemy.Size e2 / 2 - 3,
                                                EnemyBullet.Y = Enemy.Y e2 + Enemy.Size e2 / 2 - 3,
                                                EnemyBullet.SpeedX = float64 (float64 (dx / length) * speed),
                                                EnemyBullet.SpeedY = float64 (float64 (dy / length) * speed),
                                                EnemyBullet.Size = 6\<rparr>
                                      in (Some (e2\<lparr>Cooldown := 60 + Intn rnd c 60\<rparr>), Some eb, c + 1))
                                else (Some e2, None, c))
                       else (Some e2, None, c))))"

fun enemyLoop ::
  "(nat \<Rightarrow> nat) \<Rightarrow> nat \<Rightarrow> Player option \<Rightarrow> Enemy list \<Rightarrow> Enemy list \<times> EnemyBullet list" where
  "enemyLoop rnd c pl [] = ([], [])"
| "enemyLoop rnd c pl (e # es) =
     (case enemyStep rnd c pl e of
        (kept, fired, c') \<Rightarrow>
          (case enemyLoop rnd c' pl es of
             (movedEnemies, newBullets) \<Rightarrow>
               ((case kept of None \<Rightarrow> [] | Some e' \<Rightarrow> [e']) @ movedEnemies,
                (case fired of None \<Rightarrow> [] | Some eb \<Rightarrow> [eb]) @ newBullets)))"

definition enemyMovementAndShooting :: "(nat \<Rightarrow> nat) \<Rightarrow> nat \<Rightarrow> Game \<Rightarrow> Game" where
  "enemyMovementAndShooting rnd c g =
     (case enemyLoop rnd c (player g) (enemies g) of
        (movedEnemies, newBullets) \<Rightarrow>
          g\<lparr>enemyBullets := enemyBullets g @ newBullets, enemies := movedEnemies\<rparr>)"

text \<open>Enemy bullets movement.\<close>

definition moveEnemyBullet :: "EnemyBullet \<Rightarrow> EnemyBullet" where
  "moveEnemyBullet eb =
     eb\<lparr>EnemyBullet.X := float64 (EnemyBullet.X eb + EnemyBullet.SpeedX eb),
        EnemyBullet.Y := float64 (EnemyBullet.Y eb + EnemyBullet.SpeedY eb)\<rparr>"

definition enemyBulletOnScreen :: "EnemyBullet \<Rightarrow> bool" where
  "enemyBulletOnScreen eb \<longleftrightarrow>
     float64 (EnemyBullet.X eb + EnemyBullet.Size eb) > 0 \<and>
     EnemyBullet.X eb < real_of_int screenWidth \<and>
     float64 (EnemyBullet.Y eb + EnemyBullet.Size eb) > 0 \<and>
     EnemyBullet.Y eb < real_of_int screenHeight"

definition enemyBulletsMovement :: "Game \<Rightarrow> Game" where
  "enemyBulletsMovement g =
     g\<lparr>enemyBullets := filter enemyBulletOnScreen (map moveEnemyBullet (enemyBullets g))\<rparr>"

text \<open>Player bullets movement.\<close>

definition moveBullet :: "Bullet \<Rightarrow> Bullet" where
  "moveBullet b = b\<lparr>Bullet.Y := Bullet.Y b + Bullet.SpeedY b\<rparr>"

definition playerBulletsMovement :: "Game \<Rightarrow> Game" where
  "playerBulletsMovement g =
     g\<lparr>bullets := filter (\<lambda>b. Bullet.Y b + Bullet.Size b > 0) (map moveBullet (bullets g))\<rparr>"

text \<open>
  Bullet vs enemy collision. \<open>hitEnemy\<close> is the inner loop for one bullet: it marks the
  first enemy that is not dead and overlaps the bullet, and tells whether there was one.
  \<open>bulletLoop\<close> is the outer loop, returning the remaining bullets, the enemies with
  their marks and the score.
\<close>

definition bulletHits :: "Bullet \<Rightarrow> Enemy \<Rightarrow> bool" where
  "bulletHits b e \<longleftrightarrow>
     \<not> Dead e \<and> rectsOverlap (Bullet.X b) (Bullet.Y b) (Bullet.Size b)
                              (Enemy.X e) (Enemy.Y e) (Enemy.Size e)"

fun hitEnemy :: "Bullet \<Rightarrow> Enemy list \<Rightarrow> Enemy list \<times> bool" where
  "hitEnemy b [] = ([], False)"
| "hitEnemy b (e # es) =
     (if bulletHits b e then (e\<lparr>Dead := True\<rparr> # es, True)
      else (case hitEnemy b es of (es', hit) \<Rightarrow> (e # es', hit)))"

fun bulletLoop :: "Bullet list \<Rightarrow> Enemy list \<Rightarrow> int \<Rightarrow> Bullet list \<times> Enemy list \<times> int" where
  "bulletLoop [] es sc = ([], es, sc)"
| "bulletLoop (b # bs) es sc =
     (case hitEnemy b es of
        (es', hit) \<Rightarrow>
          if hit then bulletLoop bs es' (wrap64 (sc + 1))
          else (case bulletLoop bs es' sc of
                  (remainingBullets, es'', sc') \<Rightarrow> (b # remainingBullets, es'', sc')))"

definition bulletVsEnemyCollision :: "Game \<Rightarrow> Game" where
  "bulletVsEnemyCollision g =
     (case bulletLoop (bullets g) (enemies g) (score g) of
        (remainingBullets, es, sc) \<Rightarrow>
          g\<lparr>score := sc,
            enemies := filter (\<lambda>e. \<not> Dead e) es,
            bullets := remainingBullets\<rparr>)"

text \<open>
  The block run at the player's death, the same text at both places of \<^verbatim>\<open>Update\<close>:
  the death score, the high score of the user if it is a new record (a write to a
  \<^verbatim>\<open>nil\<close> map panics) with \<^verbatim>\<open>saveScores()\<close> right after, then the state \<^verbatim>\<open>"dead"\<close>.
\<close>

definition playerDeath :: "Input \<Rightarrow> World \<Rightarrow> panic + World" where
  "playerDeath inp w =
     (let g1 = (game w)\<lparr>deathScore := score (game w)\<rparr>
      in if username g1 \<noteq> [] \<and> score g1 > lookupScore (scores w) (username g1)
         then (case HighScores (scores w) of
                 None \<Rightarrow> Inl AssignmentToNilMap
               | Some m \<Rightarrow>
                   (let w1 = w\<lparr>game := g1,
                               scores := (scores w)\<lparr>HighScores := Some (m(username g1 \<mapsto> score g1))\<rparr>\<rparr>;
                        w2 = saveScores inp w1
                    in Inr (w2\<lparr>game := (game w2)\<lparr>gameState := ''dead''\<rparr>\<rparr>)))
         else Inr (w\<lparr>game := g1\<lparr>gameState := ''dead''\<rparr>\<rparr>))"

text \<open>
  Enemy bullet vs player collision (bullets that hit are dropped; a hit ends the tick),
  then player vs enemy collision (the loop stops at the first enemy that overlaps).
\<close>

definition ebHitsPlayer :: "Player \<Rightarrow> EnemyBullet \<Rightarrow> bool" where
  "ebHitsPlayer p eb \<longleftrightarrow>
     rectsOverlap (EnemyBullet.X eb) (EnemyBullet.Y eb) (EnemyBullet.Size eb)
                  (Player.X p) (Player.Y p) (Player.Size p)"

definition playerTouches :: "Player \<Rightarrow> Enemy \<Rightarrow> bool" where
  "playerTouches p e \<longleftrightarrow>
     rectsOverlap (Player.X p) (Player.Y p) (Player.Size p)
                  (Enemy.X e) (Enemy.Y e) (Enemy.Size e)"

definition playerCollisions :: "Input \<Rightarrow> World \<Rightarrow> panic + World" where
  "playerCollisions inp w =
     (case player (game w) of
        None \<Rightarrow> Inr w
      | Some p \<Rightarrow>
          (let playerHit = list_ex (ebHitsPlayer p) (enemyBullets (game w));
               w1 = w\<lparr>game := (game w)\<lparr>enemyBullets :=
                       filter (\<lambda>eb. \<not> ebHitsPlayer p eb) (enemyBullets (game w))\<rparr>\<rparr>
           in if playerHit then playerDeath inp w1
              else if list_ex (playerTouches p) (enemies (game w1)) then playerDeath inp w1
              else Inr w1))"

text \<open>
  The part of the tick between \<^verbatim>\<open>g.viewport.Move()\<close> and the collisions with the
  player: it touches the \<^verbatim>\<open>Game\<close> only and cannot panic. \<open>beforeCollision\<close> is the
  game when the bullet vs enemy collision starts.
\<close>

definition beforeCollision :: "Input \<Rightarrow> Game \<Rightarrow> Game" where
  "beforeCollision inp g =
     (let g1 = g\<lparr>elapsedFrames := wrap64 (elapsedFrames g + 1)\<rparr>;
          g2 = playerMovement inp g1;
          g3 = shooting inp g2;
          g4 = decreaseSpawnInterval g3;
          g5 = fst (enemySpawning (randSource inp) g4);
          c = snd (enemySpawning (randSource inp) g4);
          g6 = enemyMovementAndShooting (randSource inp) c g5;
          g7 = enemyBulletsMovement g6;
          g8 = playerBulletsMovement g7
      in g8)"

definition simulate :: "Input \<Rightarrow> Game \<Rightarrow> Game" where
  "simulate inp g = bulletVsEnemyCollision (beforeCollision inp g)"

text \<open>
  One call of \<^verbatim>\<open>Update\<close> in a state other than \<^verbatim>\<open>"settings"\<close>, \<^verbatim>\<open>"menu"\<close> and
  \<^verbatim>\<open>"dead"\<close>.
\<close>

definition playingUpdate :: "Input \<Rightarrow> World \<Rightarrow> panic + World" where
  "playingUpdate inp w =
     (let g0 = (game w)\<lparr>keys := pressedKeys inp\<rparr>
      in case Move (bgImageH inp) (viewport g0) of
           Inl e \<Rightarrow> Inl e
         | Inr vp \<Rightarrow> playerCollisions inp (w\<lparr>game := simulate inp (g0\<lparr>viewport := vp\<rparr>)\<rparr>))"

text \<open>A sequence of such calls, one input each; a panic ends the process.\<close>

fun runTicks :: "Input list \<Rightarrow> World \<Rightarrow> panic + World" where
  "runTicks [] w = Inr w"
| "runTicks (inp # inps) w =
     (case playingUpdate inp w of
        Inl e \<Rightarrow> Inl e
      | Inr w' \<Rightarrow> runTicks inps w')"

subsection \<open>The start of the process and of a session\<close>

text \<open>The \<^verbatim>\<open>Game\<close> literal of \<^verbatim>\<open>main\<close>; the fields it does not name are zero.\<close>

definition initialGame :: Game where
  "initialGame =
     \<lparr>keys = [],
      viewport = \<lparr>x16 = 0, y16 = 0\<rparr>,
      player = Some (NewPlayer (real_of_int (screenWidth sdiv 2))
                               (real_of_int (screenHeight sdiv 2))),
      bullets = [],
      enemies = [],
      enemyBullets = [],
      spawnCounter = 0,
      spawnInterval = 90,
      elapsedFrames = 0,
      gameState = ''menu'',
      score = 0,
      deathScore = 0,
      username = [],
      usernameInput = [],
      lastGameState = [],
      dropdownOpen = False,
      selectedScreen = 0,
      customWidth = 0,
      customHeight = 0,
      customInput = False,
      customInputStr = []\<rparr>"

text \<open>
  \<^verbatim>\<open>main\<close> up to \<^verbatim>\<open>ebiten.RunGame\<close>: \<^verbatim>\<open>loadScores()\<close> on the zero value of
  \<^verbatim>\<open>scores\<close>, then the game object. The argument \<open>file\<close> is the score file found.
\<close>

definition mainStart ::
  "(string \<Rightarrow> ScoreData \<Rightarrow> bool \<times> ScoreData) \<Rightarrow> string option \<Rightarrow> World" where
  "mainStart jsonDecode file =
     loadScores jsonDecode
       \<lparr>game = initialGame, scores = \<lparr>HighScores = None\<rparr>, scoreFile = file\<rparr>"

text \<open>
  The three statements the menu runs on Enter with a non-empty \<^verbatim>\<open>usernameInput\<close>:
  \<^verbatim>\<open>g.username = g.usernameInput; g.Reset(); g.gameState = "playing"\<close>.
\<close>

definition startPlaying :: "World \<Rightarrow> World" where
  "startPlaying w =
     (let w1 = Reset (w\<lparr>game := (game w)\<lparr>username := usernameInput (game w)\<rparr>\<rparr>)
      in w1\<lparr>game := (game w1)\<lparr>gameState := ''playing''\<rparr>\<rparr>)"

section \<open>Notions used in the statements\<close>

text \<open>
  A sequence of death events, each with the input of its tick and the game object as it
  is when the player dies (between two deaths the program changes the game object only).
\<close>

fun deathEvents :: "(Input \<times> Game) list \<Rightarrow> World \<Rightarrow> panic + World" where
  "deathEvents [] w = Inr w"
| "deathEvents ((inp, g) # ds) w =
     (case playerDeath inp (w\<lparr>game := g\<rparr>) of
        Inl e \<Rightarrow> Inl e
      | Inr w' \<Rightarrow> deathEvents ds w')"

text \<open>
  The condition under which \<open>Move\<close> does not panic: no background image, or one whose
  height times 16 is not 0 in the range of \<^verbatim>\<open>int\<close>.
\<close>

definition bgImageOK :: "Input \<Rightarrow> bool" where
  "bgImageOK inp \<longleftrightarrow> (case bgImageH inp of None \<Rightarrow> True | Some sY \<Rightarrow> wrap64 (sY * 16) \<noteq> 0)"

text \<open>The overlap of a bullet with an enemy, whether marked dead or not.\<close>

definition bulletOverlaps :: "Bullet \<Rightarrow> Enemy \<Rightarrow> bool" where
  "bulletOverlaps b e \<longleftrightarrow>
     rectsOverlap (Bullet.X b) (Bullet.Y b) (Bullet.Size b) (Enemy.X e) (Enemy.Y e) (Enemy.Size e)"

text \<open>
  The game of a tick when the enemy movement and shooting starts (the player has moved,
  the enemies spawned on this tick are at the end of the list), with the index of the
  next draw.
\<close>

definition beforeEnemies :: "Input \<Rightarrow> Game \<Rightarrow> Game \<times> nat" where
  "beforeEnemies inp g =
     enemySpawning (randSource inp)
       (decreaseSpawnInterval (shooting inp (playerMovement inp
          (g\<lparr>elapsedFrames := wrap64 (elapsedFrames g + 1)\<rparr>))))"

section \<open>Example states\<close>

text \<open>
  An input for examples: no key held, no mouse edge, every draw 0, a background image
  of height 16, a score file that can be created.
\<close>

definition idleInput :: Input where
  "idleInput =
     \<lparr>pressedKeys = [],
      isKeyPressed = (\<lambda>k. False),
      mouseLeftJustPressed = False,
      randSource = (\<lambda>i. 0),
      bgImageH = Some 16,
      createOK = True,
      jsonEncode = (\<lambda>sd. [])\<rparr>"

text \<open>
  The same input with a fresh press of the left mouse button, and a world for examples:
  the process started without a score file, the name Ann typed, Enter pressed.
\<close>

definition clickInput :: Input where
  "clickInput = idleInput\<lparr>mouseLeftJustPressed := True\<rparr>"

definition annWorld :: World where
  "annWorld =
     (let w = mainStart (\<lambda>content sd. (True, sd)) None
      in startPlaying (w\<lparr>game := (game w)\<lparr>usernameInput := ''Ann''\<rparr>\<rparr>))"

text \<open>
  The example world at a moment of death: Ann has 30 stored and 50 in this session, and
  an enemy sits on the player.
\<close>

definition annDeathWorld :: World where
  "annDeathWorld =
     annWorld\<lparr>scores := \<lparr>HighScores = Some [''Ann'' \<mapsto> 30]\<rparr>,
              game := (game annWorld)\<lparr>score := 50,
                enemies := [\<lparr>Enemy.X = 320, Y = 240, Size = 32, SpeedY = - 2,
                              Cooldown = 40, Dead = False\<rparr>]\<rparr>\<rparr>"

text \<open>
  A moment of the collision pass for examples: a bullet, an enemy it overlaps, an enemy
  far away and a bullet far from both.
\<close>

definition flyingBullet :: Bullet where
  "flyingBullet = \<lparr>Bullet.X = 333, Y = 280, SpeedY = 8, Size = 6\<rparr>"

definition nearEnemy :: Enemy where
  "nearEnemy = \<lparr>Enemy.X = 320, Y = 270, Size = 32, SpeedY = - 2, Cooldown = 40, Dead = False\<rparr>"

definition farEnemy :: Enemy where
  "farEnemy = \<lparr>Enemy.X = 100, Y = 400, Size = 32, SpeedY = - 2, Cooldown = 40, Dead = False\<rparr>"

definition strayBullet :: Bullet where
  "strayBullet = \<lparr>Bullet.X = 10, Y = 50, SpeedY = 8, Size = 6\<rparr>"

definition hitGame :: Game where
  "hitGame =
     (game annWorld)\<lparr>bullets := [flyingBullet, strayBullet], enemies := [farEnemy, nearEnemy]\<rparr>"

text \<open>
  The example session \<open>k\<close> ticks after its start, with the bullet fired on its first
  tick now at height \<open>y\<close>.
\<close>

definition flightWorld :: "int \<Rightarrow> real \<Rightarrow> World" where
  "flightWorld k y =
     annWorld\<lparr>game := (game annWorld)\<lparr>
       bullets := [\<lparr>Bullet.X = 333, Y = y, SpeedY = 8, Size = 6\<rparr>],
       spawnCounter := k, elapsedFrames := k\<rparr>\<rparr>"

text \<open>
  Score files for examples, and what \<^verbatim>\<open>Decode\<close> of \<^verbatim>\<open>encoding/json\<close> does with them on
  a target of type \<^verbatim>\<open>*ScoreData\<close>. An object under \<^verbatim>\<open>high_scores\<close> is stored key by key
  into the map of the target (a \<^verbatim>\<open>nil\<close> map is allocated first); \<^verbatim>\<open>null\<close> sets the map to
  \<^verbatim>\<open>nil\<close>; a string where a number is expected stores 0 under its key, the rest of the
  object is decoded, and \<^verbatim>\<open>Decode\<close> returns an \<^verbatim>\<open>UnmarshalTypeError\<close>. On the other
  contents used below, the empty file (\<^verbatim>\<open>io.EOF\<close>) and \<^verbatim>\<open>{{{\<close> (a syntax error),
  \<^verbatim>\<open>Decode\<close> returns an error and leaves its target as it is.
\<close>

definition annFile :: string where
  "annFile = ''{\"high_scores\":{\"Ann\":50}}''"

definition nullFile :: string where
  "nullFile = ''{\"high_scores\":null}''"

definition mismatchFile :: string where
  "mismatchFile = ''{\"high_scores\":{\"Ann\":50,\"Bob\":\"x\",\"Cy\":7}}''"

definition exampleDecode :: "string \<Rightarrow> ScoreData \<Rightarrow> bool \<times> ScoreData" where
  "exampleDecode content sd =
     (let m = (case HighScores sd of None \<Rightarrow> Map.empty | Some m \<Rightarrow> m)
      in if content = annFile
         then (False, sd\<lparr>HighScores := Some (m(''Ann'' \<mapsto> 50))\<rparr>)
         else if content = nullFile
         then (False, sd\<lparr>HighScores := None\<rparr>)
         else if content = mismatchFile
         then (True, sd\<lparr>HighScores := Some (m(''Ann'' \<mapsto> 50, ''Bob'' \<mapsto> 0, ''Cy'' \<mapsto> 7))\<rparr>)
         else (True, sd))"

text \<open>
  The process started on the file \<^verbatim>\<open>{"high_scores":null}\<close>, the name Ann typed, Enter
  pressed; then a moment of death as above: 50 in this session, an enemy on the player.
\<close>

definition nilDeathWorld :: World where
  "nilDeathWorld =
     (let w = mainStart exampleDecode (Some nullFile);
          w1 = startPlaying (w\<lparr>game := (game w)\<lparr>usernameInput := ''Ann''\<rparr>\<rparr>)
      in w1\<lparr>game := (game w1)\<lparr>score := 50,
                enemies := [\<lparr>Enemy.X = 320, Y = 240, Size = 32, SpeedY = - 2,
                              Cooldown = 40, Dead = False\<rparr>]\<rparr>\<rparr>)"

text \<open>
  Enemies about to fire, for examples: one whose centre after its move lies 20 to the
  left of and 48 above the player's centre at the start of a session, one whose centre
  then coincides with it; and the example session with each of them.
\<close>

definition aimedEnemy :: Enemy where
  "aimedEnemy = \<lparr>Enemy.X = 300, Y = 194, Size = 32, SpeedY = - 2, Cooldown = 1, Dead = False\<rparr>"

definition centredEnemy :: Enemy where
  "centredEnemy = \<lparr>Enemy.X = 320, Y = 242, Size = 32, SpeedY = - 2, Cooldown = 1, Dead = False\<rparr>"

definition aimGame :: Game where
  "aimGame = (game annWorld)\<lparr>enemies := [aimedEnemy]\<rparr>"

definition centredGame :: Game where
  "centredGame = (game annWorld)\<lparr>enemies := [centredEnemy]\<rparr>"

section \<open>Theorems\<close>



subsection \<open>Evaluation of the example states\<close>

lemma beforeCollision_nested:
  "beforeCollision inp g =
     playerBulletsMovement (enemyBulletsMovement
       (enemyMovementAndShooting (randSource inp)
          (snd (enemySpawning (randSource inp)
             (decreaseSpawnInterval (shooting inp (playerMovement inp
                (g\<lparr>elapsedFrames := wrap64 (elapsedFrames g + 1)\<rparr>))))))
          (fst (enemySpawning (randSource inp)
             (decreaseSpawnInterval (shooting inp (playerMovement inp
                (g\<lparr>elapsedFrames := wrap64 (elapsedFrames g + 1)\<rparr>))))))))"
  by (simp only: beforeCollision_def Let_def)

lemma simulate_nested:
  "simulate inp g =
     bulletVsEnemyCollision (playerBulletsMovement (enemyBulletsMovement
       (enemyMovementAndShooting (randSource inp)
          (snd (enemySpawning (randSource inp)
             (decreaseSpawnInterval (shooting inp (playerMovement inp
                (g\<lparr>elapsedFrames := wrap64 (elapsedFrames g + 1)\<rparr>))))))
          (fst (enemySpawning (randSource inp)
             (decreaseSpawnInterval (shooting inp (playerMovement inp
                (g\<lparr>elapsedFrames := wrap64 (elapsedFrames g + 1)\<rparr>)))))))))"
  by (simp only: simulate_def beforeCollision_def Let_def)

lemma playingUpdate_nested:
  "playingUpdate inp w =
     (case Move (bgImageH inp) (viewport (game w)) of
        Inl e \<Rightarrow> Inl e
      | Inr vp \<Rightarrow> playerCollisions inp
          (w\<lparr>game := simulate inp ((game w)\<lparr>keys := pressedKeys inp, viewport := vp\<rparr>)\<rparr>))"
  by (simp add: playingUpdate_def)

lemmas eval_defs = simulate_nested Move_def playerMovement_def movePlayer_def shooting_def
  newBullet_def decreaseSpawnInterval_def enemySpawning_def enemyMovementAndShooting_def
  enemyStep_def enemyBulletsMovement_def playerBulletsMovement_def bulletVsEnemyCollision_def
  moveBullet_def moveEnemyBullet_def enemyBulletOnScreen_def bulletHits_def ebHitsPlayer_def
  playerTouches_def rectsOverlap_def Intn_def wrap64_def screenWidth_def screenHeight_def
  signed_modulo_int_def signed_divide_int_def Let_def

lemma annWorld_eq:
  "annWorld =
     \<lparr>game =
        \<lparr>keys = [], viewport = \<lparr>x16 = 0, y16 = 0\<rparr>,
         player = Some \<lparr>Player.X = 320, Y = 240, Size = 32\<rparr>, bullets = [],
         enemies = [], enemyBullets = [], spawnCounter = 0,
         spawnInterval = 90, elapsedFrames = 0, gameState = ''playing'',
         score = 0, deathScore = 0, username = ''Ann'', usernameInput = ''Ann'',
         lastGameState = [], dropdownOpen = False, selectedScreen = 0,
         customWidth = 0, customHeight = 0, customInput = False,
         customInputStr = []\<rparr>,
      scores = \<lparr>HighScores = Some Map.empty\<rparr>, scoreFile = None\<rparr>"
  by (simp add: annWorld_def startPlaying_def mainStart_def loadScores_def Reset_def
      initialGame_def NewPlayer_def screenWidth_def screenHeight_def
      signed_divide_int_def Let_def)

subsection \<open>The player\<close>

lemma movePlayer_Size: "Player.Size (movePlayer inp p) = Player.Size p"
  by (simp add: movePlayer_def Let_def)

lemma movePlayer_X_bounds:
  assumes "Player.Size p \<le> real_of_int screenWidth"
  shows "0 \<le> Player.X (movePlayer inp p)"
    and "Player.X (movePlayer inp p) \<le> real_of_int screenWidth - Player.Size p"
  using assms by (simp_all add: movePlayer_def Let_def)

lemma movePlayer_Y_bounds:
  assumes "Player.Size p \<le> real_of_int screenHeight"
  shows "0 \<le> Player.Y (movePlayer inp p)"
    and "Player.Y (movePlayer inp p) \<le> real_of_int screenHeight - Player.Size p"
  using assms by (simp_all add: movePlayer_def Let_def)

lemma player_playerMovement:
  "player (playerMovement inp g) = map_option (movePlayer inp) (player g)"
  by (simp add: playerMovement_def split: option.splits)

lemma player_shooting: "player (shooting inp g) = player g"
  by (simp add: shooting_def split: option.splits)

lemma player_decreaseSpawnInterval: "player (decreaseSpawnInterval g) = player g"
  by (simp add: decreaseSpawnInterval_def Let_def)

lemma player_enemySpawning: "player (fst (enemySpawning rnd g)) = player g"
  by (simp add: enemySpawning_def Let_def)

lemma player_enemyMovementAndShooting: "player (enemyMovementAndShooting rnd c g) = player g"
  by (simp add: enemyMovementAndShooting_def split: prod.splits)

lemma player_enemyBulletsMovement: "player (enemyBulletsMovement g) = player g"
  by (simp add: enemyBulletsMovement_def)

lemma player_playerBulletsMovement: "player (playerBulletsMovement g) = player g"
  by (simp add: playerBulletsMovement_def)

lemma player_bulletVsEnemyCollision: "player (bulletVsEnemyCollision g) = player g"
  by (simp add: bulletVsEnemyCollision_def split: prod.splits)

lemmas player_phase = player_playerMovement player_shooting player_decreaseSpawnInterval
  player_enemySpawning player_enemyMovementAndShooting player_enemyBulletsMovement
  player_playerBulletsMovement player_bulletVsEnemyCollision

lemma player_simulate: "player (simulate inp g) = map_option (movePlayer inp) (player g)"
  by (simp add: simulate_def beforeCollision_def Let_def player_phase)

lemma player_playerDeath:
  "playerDeath inp w = Inr w' \<Longrightarrow> player (game w') = player (game w)"
  by (auto simp add: playerDeath_def saveScores_def Let_def split: if_splits option.splits)

lemma player_playerCollisions:
  "playerCollisions inp w = Inr w' \<Longrightarrow> player (game w') = player (game w)"
  by (auto simp add: playerCollisions_def Let_def split: option.splits if_splits
      dest!: player_playerDeath)

lemma player_playingUpdate:
  "playingUpdate inp w = Inr w' \<Longrightarrow>
     player (game w') = map_option (movePlayer inp) (player (game w))"
  by (auto simp add: playingUpdate_def Let_def player_simulate split: sum.splits
      dest!: player_playerCollisions)

text \<open>
  C7. Whatever keys are held, the player of size 32 is inside the arena after the
  movement and the clamp: \<open>0 \<le> x \<le> 640 - 32\<close> and \<open>0 \<le> y \<le> 480 - 32\<close>, the size
  is still 32, and the player a tick leaves behind is this moved and clamped player,
  so the bound holds after every tick (whether or not it held before).
\<close>

theorem player_stays_in_arena:
  assumes "Player.Size p = 32"
  shows "0 \<le> Player.X (movePlayer inp p) \<and> Player.X (movePlayer inp p) \<le> 640 - 32
       \<and> 0 \<le> Player.Y (movePlayer inp p) \<and> Player.Y (movePlayer inp p) \<le> 480 - 32
       \<and> Player.Size (movePlayer inp p) = 32
       \<and> (player (game w) = Some p \<and> playingUpdate inp w = Inr w'
            \<longrightarrow> player (game w') = Some (movePlayer inp p))"
  using assms movePlayer_X_bounds [of p inp] movePlayer_Y_bounds [of p inp]
    player_playingUpdate [of inp w w']
  by (simp add: movePlayer_Size screenWidth_def screenHeight_def)

theorem player_stays_in_arena_witness:
  "Player.Size \<lparr>Player.X = 320, Y = 240, Size = 32\<rparr> = 32
   \<and> player (game annWorld) = Some \<lparr>Player.X = 320, Y = 240, Size = 32\<rparr>
   \<and> movePlayer (idleInput\<lparr>isKeyPressed := (\<lambda>k. k = KeyW \<or> k = KeyA)\<rparr>)
        \<lparr>Player.X = 320, Y = 240, Size = 32\<rparr> = \<lparr>Player.X = 316, Y = 236, Size = 32\<rparr>
   \<and> playingUpdate (idleInput\<lparr>isKeyPressed := (\<lambda>k. k = KeyW \<or> k = KeyA)\<rparr>) annWorld
       = Inr (annWorld\<lparr>game := (game annWorld)\<lparr>
                player := Some \<lparr>Player.X = 316, Y = 236, Size = 32\<rparr>,
                spawnCounter := 1, elapsedFrames := 1\<rparr>\<rparr>)
   \<and> (0::real) \<le> 316 \<and> (316::real) \<le> 640 - 32 \<and> (0::real) \<le> 236 \<and> (236::real) \<le> 480 - 32"
  using player_stays_in_arena [of "\<lparr>Player.X = 320, Y = 240, Size = 32\<rparr>"
      "idleInput\<lparr>isKeyPressed := (\<lambda>k. k = KeyW \<or> k = KeyA)\<rparr>" annWorld]
  by (simp add: annWorld_eq idleInput_def playingUpdate_nested playerCollisions_def eval_defs)

subsection \<open>Reset\<close>

text \<open>
  C10. \<open>Reset\<close> writes the session fields only: the player is a new one at the centre
  (320, 240) of the arena, the three lists are empty, \<open>spawnCounter\<close>,
  \<open>elapsedFrames\<close> and \<open>score\<close> are 0 and \<open>spawnInterval\<close> is 90. Every other field
  of the game (keys, viewport, game state, death score, user name and its input, last
  game state, the settings fields) and the globals (the score table, the score file)
  are as before.
\<close>

theorem Reset_frame:
  "player (game (Reset w)) = Some \<lparr>Player.X = 320, Y = 240, Size = 32\<rparr>
   \<and> bullets (game (Reset w)) = []
   \<and> enemies (game (Reset w)) = []
   \<and> enemyBullets (game (Reset w)) = []
   \<and> spawnCounter (game (Reset w)) = 0
   \<and> spawnInterval (game (Reset w)) = 90
   \<and> elapsedFrames (game (Reset w)) = 0
   \<and> score (game (Reset w)) = 0
   \<and> keys (game (Reset w)) = keys (game w)
   \<and> viewport (game (Reset w)) = viewport (game w)
   \<and> gameState (game (Reset w)) = gameState (game w)
   \<and> deathScore (game (Reset w)) = deathScore (game w)
   \<and> username (game (Reset w)) = username (game w)
   \<and> usernameInput (game (Reset w)) = usernameInput (game w)
   \<and> lastGameState (game (Reset w)) = lastGameState (game w)
   \<and> dropdownOpen (game (Reset w)) = dropdownOpen (game w)
   \<and> selectedScreen (game (Reset w)) = selectedScreen (game w)
   \<and> customWidth (game (Reset w)) = customWidth (game w)
   \<and> customHeight (game (Reset w)) = customHeight (game w)
   \<and> customInput (game (Reset w)) = customInput (game w)
   \<and> customInputStr (game (Reset w)) = customInputStr (game w)
   \<and> scores (Reset w) = scores w
   \<and> scoreFile (Reset w) = scoreFile w"
  by (simp add: Reset_def NewPlayer_def screenWidth_def screenHeight_def signed_divide_int_def)

subsection \<open>Shooting\<close>

lemma bullets_playerMovement: "bullets (playerMovement inp g) = bullets g"
  by (simp add: playerMovement_def split: option.splits)

lemma bullets_shooting_mem: "b \<in> set (bullets g) \<Longrightarrow> b \<in> set (bullets (shooting inp g))"
  by (simp add: shooting_def split: option.splits)

lemma bullets_decreaseSpawnInterval: "bullets (decreaseSpawnInterval g) = bullets g"
  by (simp add: decreaseSpawnInterval_def Let_def)

lemma bullets_enemySpawning: "bullets (fst (enemySpawning rnd g)) = bullets g"
  by (simp add: enemySpawning_def Let_def)

lemma bullets_enemyMovementAndShooting: "bullets (enemyMovementAndShooting rnd c g) = bullets g"
  by (simp add: enemyMovementAndShooting_def split: prod.splits)

lemma bullets_enemyBulletsMovement: "bullets (enemyBulletsMovement g) = bullets g"
  by (simp add: enemyBulletsMovement_def)

lemma bullets_playerBulletsMovement:
  "bullets (playerBulletsMovement g) =
     filter (\<lambda>b. Bullet.Y b + Bullet.Size b > 0) (map moveBullet (bullets g))"
  by (simp add: playerBulletsMovement_def)

lemma bullets_beforeCollision:
  "bullets (beforeCollision inp g) =
     filter (\<lambda>b. Bullet.Y b + Bullet.Size b > 0)
       (map moveBullet (bullets (shooting inp (playerMovement inp
          (g\<lparr>elapsedFrames := wrap64 (elapsedFrames g + 1)\<rparr>)))))"
  by (simp add: beforeCollision_def Let_def bullets_playerBulletsMovement
      bullets_enemyBulletsMovement bullets_enemyMovementAndShooting bullets_enemySpawning
      bullets_decreaseSpawnInterval)

text \<open>
  C2, as amended. On a fresh press of the left mouse button with a player present,
  exactly one bullet is appended (and nothing else changes): its \<open>X\<close> is
  \<open>player.X + player.Size / 2\<close> minus half the bullet size 6, its \<open>Y\<close> is
  \<open>player.Y + player.Size\<close>, the player's bottom edge (y grows downward), and its
  \<open>SpeedY\<close> is \<open>+8\<close>, so the movement pass moves it toward increasing y by 8 a
  tick. Without a fresh press, or without a player, no bullet is spawned. In a tick
  the bullets that enter the collision pass are those after this step, taken on the
  player as moved in this tick, each moved once and kept if still below the top edge.
\<close>

theorem shooting_spawns_bullet:
  "(player g = Some p \<and> mouseLeftJustPressed inp \<longrightarrow>
      shooting inp g =
        g\<lparr>bullets := bullets g @
             [\<lparr>Bullet.X = Player.X p + Player.Size p / 2 - 6 / 2,
               Bullet.Y = Player.Y p + Player.Size p,
               Bullet.SpeedY = 8,
               Bullet.Size = 6\<rparr>]\<rparr>)
   \<and> (\<not> mouseLeftJustPressed inp \<longrightarrow> shooting inp g = g)
   \<and> (player g = None \<longrightarrow> shooting inp g = g)
   \<and> moveBullet \<lparr>Bullet.X = x, Bullet.Y = y, Bullet.SpeedY = 8, Bullet.Size = 6\<rparr>
       = \<lparr>Bullet.X = x, Bullet.Y = y + 8, Bullet.SpeedY = 8, Bullet.Size = 6\<rparr>
   \<and> bullets (beforeCollision inp g) =
       filter (\<lambda>b. Bullet.Y b + Bullet.Size b > 0)
         (map moveBullet
            (bullets (shooting inp (playerMovement inp
               (g\<lparr>elapsedFrames := wrap64 (elapsedFrames g + 1)\<rparr>)))))"
  by (simp add: shooting_def newBullet_def moveBullet_def bullets_beforeCollision
      split: option.splits)

theorem shooting_spawns_bullet_witness:
  "player (game annWorld) = Some \<lparr>Player.X = 320, Y = 240, Size = 32\<rparr>
   \<and> mouseLeftJustPressed clickInput
   \<and> shooting clickInput (game annWorld) =
       (game annWorld)\<lparr>bullets := [\<lparr>Bullet.X = 333, Y = 272, SpeedY = 8, Size = 6\<rparr>]\<rparr>
   \<and> \<not> mouseLeftJustPressed idleInput
   \<and> shooting idleInput (game annWorld) = game annWorld
   \<and> player ((game annWorld)\<lparr>player := None\<rparr>) = None
   \<and> shooting clickInput ((game annWorld)\<lparr>player := None\<rparr>) = (game annWorld)\<lparr>player := None\<rparr>
   \<and> moveBullet \<lparr>Bullet.X = 333, Y = 272, SpeedY = 8, Size = 6\<rparr>
       = \<lparr>Bullet.X = 333, Y = 280, SpeedY = 8, Size = 6\<rparr>
   \<and> bullets (beforeCollision clickInput (game annWorld))
       = [\<lparr>Bullet.X = 333, Y = 280, SpeedY = 8, Size = 6\<rparr>]
   \<and> bullets (beforeCollision idleInput (game annWorld)) = []"
proof -
  let ?p = "\<lparr>Player.X = 320, Y = 240, Size = 32\<rparr>"
  note click = shooting_spawns_bullet [of "game annWorld" ?p clickInput 333 272]
  note idle = shooting_spawns_bullet [of "game annWorld" ?p idleInput 333 272]
  note nobody = shooting_spawns_bullet [of "(game annWorld)\<lparr>player := None\<rparr>" ?p clickInput 333 272]
  have p: "player (game annWorld) = Some ?p"
    by (simp add: annWorld_eq)
  have c: "mouseLeftJustPressed clickInput" "\<not> mouseLeftJustPressed idleInput"
    by (simp_all add: clickInput_def idleInput_def)
  have 1: "shooting clickInput (game annWorld) =
       (game annWorld)\<lparr>bullets := [\<lparr>Bullet.X = 333, Y = 272, SpeedY = 8, Size = 6\<rparr>]\<rparr>"
    using click p c(1) by (simp add: annWorld_eq)
  have 2: "shooting idleInput (game annWorld) = game annWorld"
    using idle c(2) by blast
  have 3: "shooting clickInput ((game annWorld)\<lparr>player := None\<rparr>) = (game annWorld)\<lparr>player := None\<rparr>"
    using nobody by simp
  have 4: "moveBullet \<lparr>Bullet.X = 333, Y = 272, SpeedY = 8, Size = 6\<rparr>
       = \<lparr>Bullet.X = 333, Y = 280, SpeedY = 8, Size = 6\<rparr>"
    using click by simp
  have 5: "bullets (beforeCollision clickInput (game annWorld))
       = [\<lparr>Bullet.X = 333, Y = 280, SpeedY = 8, Size = 6\<rparr>]"
    by (simp add: annWorld_eq clickInput_def idleInput_def beforeCollision_nested eval_defs)
  have 6: "bullets (beforeCollision idleInput (game annWorld)) = []"
    by (simp add: annWorld_eq idleInput_def beforeCollision_nested eval_defs)
  show ?thesis
    using p c 1 2 3 4 5 6 by simp
qed

text \<open>
  C2 as stated fails: with the player at (320, 240) the bullet starts at y = 272, not at
  the player's top edge 240, and the movement pass takes it to 280, not toward
  decreasing y.
\<close>

theorem bullet_spawn_counterexample:
  "player (game annWorld) = Some \<lparr>Player.X = 320, Y = 240, Size = 32\<rparr>
   \<and> mouseLeftJustPressed clickInput
   \<and> bullets (shooting clickInput (game annWorld)) = [\<lparr>Bullet.X = 333, Y = 272, SpeedY = 8, Size = 6\<rparr>]
   \<and> Bullet.Y (last (bullets (shooting clickInput (game annWorld))))
        \<noteq> Player.Y (the (player (game annWorld)))
   \<and> \<not> Bullet.Y (moveBullet (last (bullets (shooting clickInput (game annWorld)))))
        < Bullet.Y (last (bullets (shooting clickInput (game annWorld))))"
  by (simp add: annWorld_eq clickInput_def idleInput_def shooting_def newBullet_def moveBullet_def)

subsection \<open>High scores\<close>

lemma scores_saveScores: "scores (saveScores inp w) = scores w"
  by (simp add: saveScores_def)

lemma game_saveScores: "game (saveScores inp w) = game w"
  by (simp add: saveScores_def)

lemma playerDeath_record:
  assumes "HighScores (scores w) = Some m"
    and "username (game w) \<noteq> []"
    and "score (game w) > lookupScore (scores w) (username (game w))"
  shows "playerDeath inp w =
     Inr \<lparr>game = (game w)\<lparr>deathScore := score (game w), gameState := ''dead''\<rparr>,
          scores = (scores w)\<lparr>HighScores := Some (m(username (game w) \<mapsto> score (game w)))\<rparr>,
          scoreFile = (if createOK inp
             then Some (jsonEncode inp
               ((scores w)\<lparr>HighScores := Some (m(username (game w) \<mapsto> score (game w)))\<rparr>))
             else scoreFile w)\<rparr>"
  using assms by (simp add: playerDeath_def saveScores_def Let_def)

lemma playerDeath_no_record:
  assumes "username (game w) = [] \<or> score (game w) \<le> lookupScore (scores w) (username (game w))"
  shows "playerDeath inp w =
     Inr (w\<lparr>game := (game w)\<lparr>deathScore := score (game w), gameState := ''dead''\<rparr>\<rparr>)"
  using assms by (auto simp add: playerDeath_def Let_def)

lemma lookupScore_upd:
  "lookupScore (sd\<lparr>HighScores := Some (m(u \<mapsto> v))\<rparr>) u' =
     (if u' = u then v else lookupScore (sd\<lparr>HighScores := Some m\<rparr>) u')"
  by (simp add: lookupScore_def)

lemma playerDeath_mono:
  assumes "playerDeath inp w = Inr w'"
  shows "lookupScore (scores w) v \<le> lookupScore (scores w') v"
proof (cases "username (game w) \<noteq> [] \<and> score (game w) > lookupScore (scores w) (username (game w))")
  case True
  then obtain m where m: "HighScores (scores w) = Some m"
    using assms by (auto simp add: playerDeath_def Let_def split: option.splits)
  have "w' = \<lparr>game = (game w)\<lparr>deathScore := score (game w), gameState := ''dead''\<rparr>,
          scores = (scores w)\<lparr>HighScores := Some (m(username (game w) \<mapsto> score (game w)))\<rparr>,
          scoreFile = (if createOK inp
             then Some (jsonEncode inp
               ((scores w)\<lparr>HighScores := Some (m(username (game w) \<mapsto> score (game w)))\<rparr>))
             else scoreFile w)\<rparr>"
    using playerDeath_record [OF m, of inp] True assms by simp
  then show ?thesis
    using True m by (simp add: lookupScore_def)
next
  case False
  then have "scores w' = scores w"
    using playerDeath_no_record [of w inp] assms by auto
  then show ?thesis by simp
qed

lemma playerDeath_nonnil:
  assumes "playerDeath inp w = Inr w'" and "HighScores (scores w) \<noteq> None"
  shows "HighScores (scores w') \<noteq> None"
  using assms
  by (auto simp add: playerDeath_def Let_def scores_saveScores split: if_splits option.splits)

lemma playerDeath_returns:
  assumes "HighScores (scores w) \<noteq> None"
  shows "\<exists>w'. playerDeath inp w = Inr w'"
  using assms by (auto simp add: playerDeath_def Let_def)

lemma deathEvents_mono:
  "deathEvents ds w = Inr w' \<Longrightarrow> lookupScore (scores w) v \<le> lookupScore (scores w') v"
proof (induction ds arbitrary: w)
  case Nil
  then show ?case by simp
next
  case (Cons d ds)
  obtain inp g where d: "d = (inp, g)" by (cases d)
  from Cons.prems d obtain w1 where
    w1: "playerDeath inp (w\<lparr>game := g\<rparr>) = Inr w1" and rest: "deathEvents ds w1 = Inr w'"
    by (auto split: sum.splits)
  have "lookupScore (scores w) v \<le> lookupScore (scores w1) v"
    using playerDeath_mono [OF w1, of v] by simp
  also have "\<dots> \<le> lookupScore (scores w') v"
    using Cons.IH [OF rest] .
  finally show ?case .
qed

lemma deathEvents_returns:
  "HighScores (scores w) \<noteq> None \<Longrightarrow> \<exists>w'. deathEvents ds w = Inr w'"
proof (induction ds arbitrary: w)
  case Nil
  then show ?case by simp
next
  case (Cons d ds)
  obtain inp g where d: "d = (inp, g)" by (cases d)
  from Cons.prems obtain w1 where w1: "playerDeath inp (w\<lparr>game := g\<rparr>) = Inr w1"
    using playerDeath_returns [of "w\<lparr>game := g\<rparr>" inp] by auto
  have "HighScores (scores w1) \<noteq> None"
    using playerDeath_nonnil [OF w1] Cons.prems by simp
  from Cons.IH [OF this] show ?case
    using d w1 by simp
qed

lemma playerCollisions_death:
  assumes "player (game w) = Some p"
    and "list_ex (ebHitsPlayer p) (enemyBullets (game w)) \<or> list_ex (playerTouches p) (enemies (game w))"
  shows "playerCollisions inp w =
     playerDeath inp (w\<lparr>game := (game w)\<lparr>enemyBullets :=
        filter (\<lambda>eb. \<not> ebHitsPlayer p eb) (enemyBullets (game w))\<rparr>\<rparr>)"
  using assms by (auto simp add: playerCollisions_def Let_def)

lemma playerCollisions_alive:
  assumes "player (game w) = None \<or>
     \<not> (list_ex (ebHitsPlayer (the (player (game w)))) (enemyBullets (game w))
        \<or> list_ex (playerTouches (the (player (game w)))) (enemies (game w)))"
  shows "\<exists>w'. playerCollisions inp w = Inr w' \<and> scores w' = scores w \<and> scoreFile w' = scoreFile w
     \<and> gameState (game w') = gameState (game w)"
  using assms by (auto simp add: playerCollisions_def Let_def split: option.splits)

lemma annDeathWorld_eq:
  "annDeathWorld =
     \<lparr>game =
        \<lparr>keys = [], viewport = \<lparr>x16 = 0, y16 = 0\<rparr>,
         player = Some \<lparr>Player.X = 320, Y = 240, Size = 32\<rparr>, bullets = [],
         enemies = [\<lparr>Enemy.X = 320, Y = 240, Size = 32, SpeedY = - 2,
                     Cooldown = 40, Dead = False\<rparr>],
         enemyBullets = [], spawnCounter = 0,
         spawnInterval = 90, elapsedFrames = 0, gameState = ''playing'',
         score = 50, deathScore = 0, username = ''Ann'', usernameInput = ''Ann'',
         lastGameState = [], dropdownOpen = False, selectedScreen = 0,
         customWidth = 0, customHeight = 0, customInput = False,
         customInputStr = []\<rparr>,
      scores = \<lparr>HighScores = Some [''Ann'' \<mapsto> 30]\<rparr>, scoreFile = None\<rparr>"
  by (simp add: annDeathWorld_def annWorld_eq)

text \<open>
  Where the table is not \<^verbatim>\<open>nil\<close>: at a death with a non-empty user name \<open>u\<close> the block
  returns, and the score stored for \<open>u\<close> afterwards is the maximum of the stored score
  and the session score. When the session score is strictly greater, the entry is
  overwritten and \<open>saveScores\<close> runs on the updated table at that moment; otherwise
  table and file are untouched. Other users' entries do not change; the death score is
  the session score and the state is \<^verbatim>\<open>"dead"\<close>. Both overlaps of a playing tick (enemy
  bullet vs player, enemy vs player) run this block. Over any sequence of deaths no
  stored score ever decreases.
\<close>

lemma high_score_at_death:
  assumes "username (game w) \<noteq> []" and "HighScores (scores w) = Some m"
  shows "\<exists>w'. playerDeath inp w = Inr w'
     \<and> lookupScore (scores w') (username (game w))
         = max (lookupScore (scores w) (username (game w))) (score (game w))
     \<and> (lookupScore (scores w) (username (game w)) < score (game w) \<longrightarrow>
          w' = (saveScores inp
                  (w\<lparr>scores := (scores w)\<lparr>HighScores :=
                        Some (m(username (game w) \<mapsto> score (game w)))\<rparr>\<rparr>))
               \<lparr>game := (game w)\<lparr>deathScore := score (game w), gameState := ''dead''\<rparr>\<rparr>)
     \<and> (\<not> lookupScore (scores w) (username (game w)) < score (game w) \<longrightarrow>
          scores w' = scores w \<and> scoreFile w' = scoreFile w)
     \<and> (\<forall>v. v \<noteq> username (game w) \<longrightarrow> lookupScore (scores w') v = lookupScore (scores w) v)
     \<and> deathScore (game w') = score (game w) \<and> gameState (game w') = ''dead''
     \<and> (player (game w) = Some p
          \<and> (list_ex (ebHitsPlayer p) (enemyBullets (game w))
               \<or> list_ex (playerTouches p) (enemies (game w))) \<longrightarrow>
          playerCollisions inp w =
            playerDeath inp (w\<lparr>game := (game w)\<lparr>enemyBullets :=
              filter (\<lambda>eb. \<not> ebHitsPlayer p eb) (enemyBullets (game w))\<rparr>\<rparr>))
     \<and> (\<exists>w''. deathEvents ds w = Inr w''
          \<and> (\<forall>v. lookupScore (scores w) v \<le> lookupScore (scores w'') v))"
proof (cases "lookupScore (scores w) (username (game w)) < score (game w)")
  case True
  let ?w' = "\<lparr>game = (game w)\<lparr>deathScore := score (game w), gameState := ''dead''\<rparr>,
          scores = (scores w)\<lparr>HighScores := Some (m(username (game w) \<mapsto> score (game w)))\<rparr>,
          scoreFile = (if createOK inp
             then Some (jsonEncode inp
               ((scores w)\<lparr>HighScores := Some (m(username (game w) \<mapsto> score (game w)))\<rparr>))
             else scoreFile w)\<rparr>"
  have d: "playerDeath inp w = Inr ?w'"
    using playerDeath_record [OF assms(2) assms(1) True] .
  have nn: "HighScores (scores w) \<noteq> None" using assms(2) by simp
  obtain w'' where seq: "deathEvents ds w = Inr w''"
    using deathEvents_returns [OF nn] by blast
  show ?thesis
    apply (rule exI [of _ ?w'])
    using True d assms seq deathEvents_mono [OF seq] playerCollisions_death [of w p inp]
    by (auto simp add: lookupScore_def saveScores_def)
next
  case False
  let ?w' = "w\<lparr>game := (game w)\<lparr>deathScore := score (game w), gameState := ''dead''\<rparr>\<rparr>"
  have d: "playerDeath inp w = Inr ?w'"
    using playerDeath_no_record [of w inp] False by simp
  have nn: "HighScores (scores w) \<noteq> None" using assms(2) by simp
  obtain w'' where seq: "deathEvents ds w = Inr w''"
    using deathEvents_returns [OF nn] by blast
  show ?thesis
    apply (rule exI [of _ ?w'])
    using False d assms seq deathEvents_mono [OF seq] playerCollisions_death [of w p inp]
    by auto
qed

lemma high_score_at_death_example:
  "username (game annDeathWorld) \<noteq> []
   \<and> HighScores (scores annDeathWorld) = Some [''Ann'' \<mapsto> 30]
   \<and> lookupScore (scores annDeathWorld) ''Ann'' = 30
   \<and> score (game annDeathWorld) = 50
   \<and> player (game annDeathWorld) = Some \<lparr>Player.X = 320, Y = 240, Size = 32\<rparr>
   \<and> list_ex (playerTouches \<lparr>Player.X = 320, Y = 240, Size = 32\<rparr>) (enemies (game annDeathWorld))
   \<and> (\<exists>w'. playerCollisions idleInput annDeathWorld = Inr w'
         \<and> lookupScore (scores w') ''Ann'' = 50
         \<and> lookupScore (scores w') ''Bob'' = 0
         \<and> scoreFile w' = Some (jsonEncode idleInput (scores w'))
         \<and> deathScore (game w') = 50
         \<and> gameState (game w') = ''dead'')
   \<and> (\<exists>w''. deathEvents [(idleInput, game annDeathWorld),
                          (idleInput, (game annDeathWorld)\<lparr>score := 20\<rparr>)] annDeathWorld = Inr w''
         \<and> lookupScore (scores w'') ''Ann'' = 50)"
  using high_score_at_death [of annDeathWorld "[''Ann'' \<mapsto> 30]" idleInput
      "\<lparr>Player.X = 320, Y = 240, Size = 32\<rparr>"
      "[(idleInput, game annDeathWorld), (idleInput, (game annDeathWorld)\<lparr>score := 20\<rparr>)]"]
  by (simp add: annDeathWorld_eq idleInput_def playerCollisions_def playerDeath_def
      saveScores_def lookupScore_def playerTouches_def ebHitsPlayer_def rectsOverlap_def Let_def)

lemma exampleDecode_eval:
  "exampleDecode annFile \<lparr>HighScores = Some Map.empty\<rparr>
     = (False, \<lparr>HighScores = Some [''Ann'' \<mapsto> 50]\<rparr>)"
  "exampleDecode nullFile \<lparr>HighScores = Some Map.empty\<rparr> = (False, \<lparr>HighScores = None\<rparr>)"
  "exampleDecode mismatchFile \<lparr>HighScores = Some Map.empty\<rparr>
     = (True, \<lparr>HighScores = Some [''Ann'' \<mapsto> 50, ''Bob'' \<mapsto> 0, ''Cy'' \<mapsto> 7]\<rparr>)"
  "exampleDecode [] \<lparr>HighScores = Some Map.empty\<rparr> = (True, \<lparr>HighScores = Some Map.empty\<rparr>)"
  "exampleDecode ''{{{'' \<lparr>HighScores = Some Map.empty\<rparr> = (True, \<lparr>HighScores = Some Map.empty\<rparr>)"
  by (simp_all add: exampleDecode_def Let_def annFile_def nullFile_def mismatchFile_def)

lemma nilDeathWorld_eq:
  "nilDeathWorld =
     \<lparr>game =
        \<lparr>keys = [], viewport = \<lparr>x16 = 0, y16 = 0\<rparr>,
         player = Some \<lparr>Player.X = 320, Y = 240, Size = 32\<rparr>, bullets = [],
         enemies = [\<lparr>Enemy.X = 320, Y = 240, Size = 32, SpeedY = - 2,
                     Cooldown = 40, Dead = False\<rparr>],
         enemyBullets = [], spawnCounter = 0,
         spawnInterval = 90, elapsedFrames = 0, gameState = ''playing'',
         score = 50, deathScore = 0, username = ''Ann'', usernameInput = ''Ann'',
         lastGameState = [], dropdownOpen = False, selectedScreen = 0,
         customWidth = 0, customHeight = 0, customInput = False,
         customInputStr = []\<rparr>,
      scores = \<lparr>HighScores = None\<rparr>, scoreFile = Some nullFile\<rparr>"
  by (simp add: nilDeathWorld_def startPlaying_def mainStart_def loadScores_def Reset_def
      exampleDecode_eval
      initialGame_def NewPlayer_def screenWidth_def screenHeight_def
      signed_divide_int_def Let_def)

lemma playerDeath_nil_table:
  assumes "HighScores (scores w) = None" and "playerDeath inp w = Inr w'"
  shows "scores w' = scores w"
  using assms by (auto simp add: playerDeath_def Let_def split: if_splits)

lemma playerCollisions_nil_table:
  assumes "HighScores (scores w) = None" and "playerCollisions inp w = Inr w'"
  shows "scores w' = scores w"
proof (cases "player (game w)")
  case None
  then show ?thesis using assms(2) by (simp add: playerCollisions_def)
next
  case (Some p)
  let ?w1 = "w\<lparr>game := (game w)\<lparr>enemyBullets :=
        filter (\<lambda>eb. \<not> ebHitsPlayer p eb) (enemyBullets (game w))\<rparr>\<rparr>"
  have n: "HighScores (scores ?w1) = None" using assms(1) by simp
  show ?thesis
  proof (cases "list_ex (ebHitsPlayer p) (enemyBullets (game w))
       \<or> list_ex (playerTouches p) (enemies (game w))")
    case True
    then have "playerDeath inp ?w1 = Inr w'"
      using playerCollisions_death [OF Some True, of inp] assms(2) by simp
    then show ?thesis using playerDeath_nil_table [OF n] by simp
  next
    case False
    then show ?thesis
      using assms(2) Some by (auto simp add: playerCollisions_def Let_def)
  qed
qed

lemma playingUpdate_nil_table:
  assumes "HighScores (scores w) = None" and "playingUpdate inp w = Inr w'"
  shows "scores w' = scores w"
proof -
  obtain vp where "playerCollisions inp
      (w\<lparr>game := simulate inp ((game w)\<lparr>keys := pressedKeys inp, viewport := vp\<rparr>)\<rparr>) = Inr w'"
    using assms(2) by (auto simp add: playingUpdate_nested split: sum.splits)
  then show ?thesis
    using playerCollisions_nil_table [of "w\<lparr>game := simulate inp
      ((game w)\<lparr>keys := pressedKeys inp, viewport := vp\<rparr>)\<rparr>" inp w'] assms(1) by simp
qed

text \<open>
  C3. The claim fails where the table is \<^verbatim>\<open>nil\<close>, a state \<^verbatim>\<open>main\<close> reaches when the score
  file holds \<^verbatim>\<open>{"high_scores":null}\<close>: \<^verbatim>\<open>Decode\<close> sets the map that \<^verbatim>\<open>loadScores\<close> has made
  to \<^verbatim>\<open>nil\<close>, and a playing tick that returns leaves the table as it is. Reading a
  \<^verbatim>\<open>nil\<close> map gives 0, so a death with a non-empty user name and a positive session
  score takes the branch of the new record, where the assignment
  \<^verbatim>\<open>scores.HighScores[g.username] = g.score\<close> panics: nothing is stored and nothing is
  saved. Both overlaps of a playing tick reach that assignment.
\<close>

theorem record_death_on_nil_table:
  assumes "HighScores (scores w) = None" and "username (game w) \<noteq> []"
    and "0 < score (game w)"
  shows "lookupScore (scores w) (username (game w)) = 0
     \<and> playerDeath inp w = Inl AssignmentToNilMap
     \<and> (player (game w) = Some p
          \<and> (list_ex (ebHitsPlayer p) (enemyBullets (game w))
               \<or> list_ex (playerTouches p) (enemies (game w))) \<longrightarrow>
          playerCollisions inp w = Inl AssignmentToNilMap)
     \<and> (playingUpdate inp w = Inr w' \<longrightarrow> scores w' = scores w)"
proof -
  have l: "lookupScore (scores w) (username (game w)) = 0"
    using assms(1) by (simp add: lookupScore_def)
  have d: "playerDeath inp w = Inl AssignmentToNilMap"
    using assms by (simp add: playerDeath_def lookupScore_def Let_def)
  have c: "playerCollisions inp w = Inl AssignmentToNilMap"
    if "player (game w) = Some p"
      and "list_ex (ebHitsPlayer p) (enemyBullets (game w))
               \<or> list_ex (playerTouches p) (enemies (game w))"
    using playerCollisions_death [OF that, of inp] assms
    by (simp add: playerDeath_def lookupScore_def Let_def)
  have t: "scores w' = scores w" if "playingUpdate inp w = Inr w'"
    using playingUpdate_nil_table [OF assms(1) that] .
  show ?thesis
    using l d c t by simp
qed

theorem record_death_on_nil_table_witness:
  "scores (mainStart exampleDecode (Some nullFile)) = \<lparr>HighScores = None\<rparr>
   \<and> HighScores (scores nilDeathWorld) = None
   \<and> username (game nilDeathWorld) = ''Ann''
   \<and> score (game nilDeathWorld) = 50
   \<and> player (game nilDeathWorld) = Some \<lparr>Player.X = 320, Y = 240, Size = 32\<rparr>
   \<and> list_ex (playerTouches \<lparr>Player.X = 320, Y = 240, Size = 32\<rparr>) (enemies (game nilDeathWorld))
   \<and> lookupScore (scores nilDeathWorld) ''Ann'' = 0
   \<and> playerDeath idleInput nilDeathWorld = Inl AssignmentToNilMap
   \<and> playerCollisions idleInput nilDeathWorld = Inl AssignmentToNilMap
   \<and> playingUpdate idleInput nilDeathWorld = Inl AssignmentToNilMap
   \<and> (\<exists>w'. playingUpdate idleInput
               (nilDeathWorld\<lparr>game := (game nilDeathWorld)\<lparr>enemies := []\<rparr>\<rparr>) = Inr w'
          \<and> scores w' = \<lparr>HighScores = None\<rparr>)"
proof -
  let ?w0 = "nilDeathWorld\<lparr>game := (game nilDeathWorld)\<lparr>enemies := []\<rparr>\<rparr>"
  have s: "scores (mainStart exampleDecode (Some nullFile)) = \<lparr>HighScores = None\<rparr>"
    by (simp add: mainStart_def loadScores_def exampleDecode_eval)
  have nil: "HighScores (scores nilDeathWorld) = None"
    and user: "username (game nilDeathWorld) \<noteq> []"
    and sc: "0 < score (game nilDeathWorld)"
    and pl: "player (game nilDeathWorld) = Some \<lparr>Player.X = 320, Y = 240, Size = 32\<rparr>"
    and touch: "list_ex (playerTouches \<lparr>Player.X = 320, Y = 240, Size = 32\<rparr>)
        (enemies (game nilDeathWorld))"
    by (simp_all add: nilDeathWorld_eq playerTouches_def rectsOverlap_def)
  have nil0: "HighScores (scores ?w0) = None"
    and user0: "username (game ?w0) \<noteq> []"
    and sc0: "0 < score (game ?w0)"
    by (simp_all add: nilDeathWorld_eq)
  note main = record_death_on_nil_table [OF nil user sc, of idleInput
      "\<lparr>Player.X = 320, Y = 240, Size = 32\<rparr>"]
  have tick: "playingUpdate idleInput nilDeathWorld = Inl AssignmentToNilMap"
    by (simp add: nilDeathWorld_eq idleInput_def playingUpdate_nested playerCollisions_def
        playerDeath_def lookupScore_def eval_defs)
  have "\<exists>w'. playingUpdate idleInput ?w0 = Inr w'"
    by (simp add: nilDeathWorld_eq idleInput_def playingUpdate_nested playerCollisions_def
        eval_defs)
  then obtain w' where t0: "playingUpdate idleInput ?w0 = Inr w'" by blast
  have "scores w' = scores ?w0"
    using record_death_on_nil_table [OF nil0 user0 sc0, of idleInput _ w'] t0 by blast
  then have alive: "\<exists>w'. playingUpdate idleInput ?w0 = Inr w' \<and> scores w' = \<lparr>HighScores = None\<rparr>"
    using t0 by (simp add: nilDeathWorld_eq)
  show ?thesis
    using main s pl touch tick alive by (simp add: nilDeathWorld_eq)
qed

subsection \<open>Rounding to \<^verbatim>\<open>float64\<close>\<close>

lemma roundEven_error: "\<bar>of_int (roundEven y) - y\<bar> \<le> 1 / 2"
proof -
  have "of_int \<lfloor>y\<rfloor> \<le> y" "y < of_int \<lfloor>y\<rfloor> + 1" by linarith+
  then show ?thesis
    by (auto simp add: roundEven_def Let_def)
qed

lemma roundEven_of_int: "roundEven (of_int k) = k"
  by (simp add: roundEven_def)

lemma roundEven_mono_int: "of_int k \<le> y \<Longrightarrow> k \<le> roundEven y"
proof -
  assume "of_int k \<le> y"
  then have "k \<le> \<lfloor>y\<rfloor>" by (simp add: le_floor_iff)
  then show ?thesis by (auto simp add: roundEven_def Let_def)
qed

lemma float64_bracket:
  assumes "x \<noteq> 0"
  shows "2 powr of_int \<lfloor>log 2 \<bar>x\<bar>\<rfloor> \<le> \<bar>x\<bar>"
    and "\<bar>x\<bar> < 2 powr (of_int \<lfloor>log 2 \<bar>x\<bar>\<rfloor> + 1)"
  using assms floor_log_eq_powr_iff [of "\<bar>x\<bar>" 2 "\<lfloor>log 2 \<bar>x\<bar>\<rfloor>"] by simp_all

lemma half_powr: "(1 / 2 :: real) = 2 powr (- 1)"
proof -
  have "(2::real) powr (- 1) = inverse (2 powr 1)" by (rule powr_minus)
  also have "\<dots> = 1 / 2" by (simp add: inverse_eq_divide)
  finally show ?thesis by simp
qed

lemma float64_error: "\<bar>float64 x - x\<bar> \<le> 2 powr (- 53) * \<bar>x\<bar>"
proof (cases "x = 0")
  case True
  then show ?thesis by (simp add: float64_def)
next
  case False
  define e where "e = \<lfloor>log 2 \<bar>x\<bar>\<rfloor>"
  define ulp :: real where "ulp = 2 powr (of_int e - 52)"
  define r where "r = roundEven (x / ulp)"
  have ulp: "0 < ulp" unfolding ulp_def by simp
  have f: "float64 x = ulp * of_int r"
    using False by (simp add: float64_def Let_def e_def ulp_def r_def)
  have "ulp * (x / ulp) = x" using ulp by simp
  then have "float64 x - x = ulp * (of_int r - x / ulp)"
    by (simp only: f right_diff_distrib)
  then have "\<bar>float64 x - x\<bar> = \<bar>ulp\<bar> * \<bar>of_int r - x / ulp\<bar>"
    by (simp only: abs_mult)
  also have "\<dots> = ulp * \<bar>of_int r - x / ulp\<bar>"
    using ulp by (simp only: abs_of_pos)
  also have "\<dots> \<le> ulp * (1 / 2)"
  proof (rule mult_left_mono)
    show "\<bar>of_int r - x / ulp\<bar> \<le> 1 / 2"
      unfolding r_def by (rule roundEven_error)
    show "0 \<le> ulp" using ulp by (rule less_imp_le)
  qed
  also have "ulp * (1 / 2) = 2 powr (- 53) * 2 powr of_int e"
  proof -
    have "ulp * (1 / 2) = 2 powr (of_int e - 52) * 2 powr (- 1)"
      unfolding ulp_def using half_powr by presburger
    also have "\<dots> = 2 powr (of_int e - 52 + (- 1))"
      by (simp only: powr_add)
    also have "of_int e - 52 + (- 1) = (- 53) + (of_int e :: real)"
      by linarith
    also have "2 powr (- 53 + (of_int e :: real)) = 2 powr (- 53) * 2 powr of_int e"
      by (simp only: powr_add)
    finally show ?thesis .
  qed
  also have "\<dots> \<le> 2 powr (- 53) * \<bar>x\<bar>"
  proof (rule mult_left_mono)
    show "2 powr of_int e \<le> \<bar>x\<bar>"
      unfolding e_def by (rule float64_bracket(1) [OF False])
    show "0 \<le> (2::real) powr (- 53)" by (rule powr_ge_zero)
  qed
  finally show ?thesis .
qed

lemma float64_pos:
  assumes "0 < x"
  shows "0 < float64 x"
proof -
  define e where "e = \<lfloor>log 2 \<bar>x\<bar>\<rfloor>"
  define ulp :: real where "ulp = 2 powr (of_int e - 52)"
  have x: "x \<noteq> 0" "\<bar>x\<bar> = x" using assms by simp_all
  have ulp: "0 < ulp" unfolding ulp_def by simp
  have f: "float64 x = ulp * of_int (roundEven (x / ulp))"
    using x(1) by (simp add: float64_def Let_def e_def ulp_def)
  have "ulp \<le> 2 powr of_int e"
    unfolding ulp_def by (rule powr_mono) simp_all
  also have "\<dots> \<le> x"
    using float64_bracket(1) [OF x(1)] by (simp only: e_def x(2))
  finally have "of_int 1 \<le> x / ulp"
    using ulp by (simp add: pos_le_divide_eq)
  then have "1 \<le> roundEven (x / ulp)" by (rule roundEven_mono_int)
  then have "0 < real_of_int (roundEven (x / ulp))" by simp
  then show ?thesis
    using ulp by (simp only: f) (rule mult_pos_pos)
qed

lemma roundEven_le_int: "y \<le> of_int k \<Longrightarrow> roundEven y \<le> k"
proof -
  assume a: "y \<le> of_int k"
  have f: "\<lfloor>y\<rfloor> \<le> k" using a by (simp add: floor_le_iff)
  show ?thesis
  proof (cases "\<lfloor>y\<rfloor> = k")
    case True
    then have "y = of_int k" using a by linarith
    then show ?thesis by (simp add: roundEven_def)
  next
    case False
    then have "\<lfloor>y\<rfloor> + 1 \<le> k" using f by simp
    then show ?thesis by (auto simp add: roundEven_def Let_def)
  qed
qed

lemma float64_neg:
  assumes "x < 0"
  shows "float64 x < 0"
proof -
  define e where "e = \<lfloor>log 2 \<bar>x\<bar>\<rfloor>"
  define ulp :: real where "ulp = 2 powr (of_int e - 52)"
  have x: "x \<noteq> 0" "\<bar>x\<bar> = - x" using assms by simp_all
  have ulp: "0 < ulp" unfolding ulp_def by simp
  have f: "float64 x = ulp * of_int (roundEven (x / ulp))"
    using x(1) by (simp add: float64_def Let_def e_def ulp_def)
  have "ulp \<le> 2 powr of_int e"
    unfolding ulp_def by (rule powr_mono) simp_all
  also have "\<dots> \<le> - x"
    using float64_bracket(1) [OF x(1)] by (simp only: e_def x(2))
  finally have "x / ulp \<le> of_int (- 1)"
    using ulp by (simp add: pos_divide_le_eq)
  then have "roundEven (x / ulp) \<le> - 1" by (rule roundEven_le_int)
  then have "real_of_int (roundEven (x / ulp)) < 0" by simp
  then show ?thesis
    using ulp by (simp only: f) (rule mult_pos_neg)
qed

lemma float64_pos_iff: "0 < float64 x \<longleftrightarrow> 0 < x"
proof
  assume p: "0 < float64 x"
  show "0 < x"
  proof (rule ccontr)
    assume "\<not> 0 < x"
    then consider "x = 0" | "x < 0" by fastforce
    then show False
    proof cases
      case 1
      then show False using p by (simp add: float64_def)
    next
      case 2
      then show False using float64_neg [of x] p by simp
    qed
  qed
next
  assume "0 < x"
  then show "0 < float64 x" by (rule float64_pos)
qed

lemma float64_scaled:
  assumes lo: "2 ^ 52 \<le> \<bar>x\<bar> * 2 ^ m" and hi: "\<bar>x\<bar> * 2 ^ m < 2 ^ 53"
  shows "float64 x = of_int (roundEven (x * 2 ^ m)) / 2 ^ m"
proof -
  have x: "x \<noteq> 0" using lo by auto
  have p: "(2::real) powr (52 - of_nat m) = 2 ^ 52 / 2 ^ m"
    by (simp add: powr_diff powr_realpow)
  have p1: "(2::real) powr (of_int (52 - int m) + 1) = 2 ^ 53 / 2 ^ m"
  proof -
    have "(2::real) powr (of_int (52 - int m) + 1) = 2 powr (53 - of_nat m)" by simp
    also have "\<dots> = 2 ^ 53 / 2 ^ m" by (simp add: powr_diff powr_realpow)
    finally show ?thesis .
  qed
  have "2 powr of_int (52 - int m) \<le> \<bar>x\<bar>"
    using lo by (simp add: p pos_divide_le_eq)
  moreover have "\<bar>x\<bar> < 2 powr (of_int (52 - int m) + 1)"
    using hi by (simp only: p1) (simp add: pos_less_divide_eq)
  ultimately have e: "\<lfloor>log 2 \<bar>x\<bar>\<rfloor> = 52 - int m"
    using x floor_log_eq_powr_iff [of "\<bar>x\<bar>" 2 "52 - int m"] by simp
  have u: "(2::real) powr (- real m) = 1 / 2 ^ m"
    by (simp add: powr_minus powr_realpow divide_inverse)
  show ?thesis
    using x by (simp add: float64_def Let_def e u)
qed

lemma float64_relative:
  "\<exists>\<delta>. \<bar>\<delta>\<bar> \<le> 2 powr (- 53) \<and> float64 x = x * (1 + \<delta>)"
proof (cases "x = 0")
  case True
  then show ?thesis by (intro exI [of _ 0]) (simp add: float64_def)
next
  case False
  define \<delta> where "\<delta> = (float64 x - x) / x"
  have "\<bar>\<delta>\<bar> = \<bar>float64 x - x\<bar> / \<bar>x\<bar>" by (simp add: \<delta>_def)
  also have "\<dots> \<le> (2 powr (- 53) * \<bar>x\<bar>) / \<bar>x\<bar>"
    using float64_error [of x] by (intro divide_right_mono) simp_all
  also have "\<dots> = 2 powr (- 53)" using False by simp
  finally have "\<bar>\<delta>\<bar> \<le> 2 powr (- 53)" .
  moreover have "float64 x = x * (1 + \<delta>)"
    using False by (simp add: \<delta>_def field_simps)
  ultimately show ?thesis by blast
qed

lemma eps_small: "(2::real) powr (- 53) \<le> 1 / 8" "0 < (2::real) powr (- 53)"
proof -
  have "(2::real) powr (- 53) \<le> 2 powr (- 3)" by (intro powr_mono) simp_all
  also have "(2::real) powr (- 3) = 1 / 8" by (simp add: powr_minus inverse_eq_divide)
  finally show "(2::real) powr (- 53) \<le> 1 / 8" .
  show "0 < (2::real) powr (- 53)" by simp
qed

lemma three_roundings:
  fixes a b c \<epsilon> :: real
  assumes a: "\<bar>a\<bar> \<le> \<epsilon>" and b: "\<bar>b\<bar> \<le> \<epsilon>" and c: "\<bar>c\<bar> \<le> \<epsilon>" and e: "\<epsilon> \<le> 1 / 8"
  shows "\<bar>(1 + b) * (1 + c) / (1 + a) - 1\<bar> \<le> 4 * \<epsilon>"
proof -
  have e0: "0 \<le> \<epsilon>" using a by linarith
  have den: "7 / 8 \<le> 1 + a" using a e by linarith
  then have dpos: "0 < 1 + a" by linarith
  have "(1 + b) * (1 + c) / (1 + a) - 1 = (b + c + b * c - a) / (1 + a)"
    using dpos by (simp add: field_simps)
  then have "\<bar>(1 + b) * (1 + c) / (1 + a) - 1\<bar> = \<bar>b + c + b * c - a\<bar> / (1 + a)"
    using dpos by (simp add: abs_divide)
  also have "\<dots> \<le> 4 * \<epsilon>"
  proof -
    have bc: "\<bar>b * c\<bar> \<le> \<epsilon> * \<epsilon>"
      using b c by (simp add: abs_mult mult_mono)
    have "\<epsilon> * \<epsilon> \<le> \<epsilon> * (1 / 8)" using e e0 by (intro mult_left_mono)
    then have "\<bar>b + c + b * c - a\<bar> \<le> 3 * \<epsilon> + \<epsilon> / 8"
      using a b c bc by linarith
    also have "\<dots> \<le> 4 * \<epsilon> * (7 / 8)" using e0 by linarith
    also have "\<dots> \<le> 4 * \<epsilon> * (1 + a)"
      using den e0 by (intro mult_left_mono) simp_all
    finally show ?thesis using dpos by (simp add: pos_divide_le_eq)
  qed
  finally show ?thesis .
qed

lemma aim_accuracy:
  fixes dx s :: real
  assumes "0 < s"
  shows "\<bar>float64 (float64 (dx / float64 s) * 5) - dx / s * 5\<bar>
     \<le> 2 powr (- 51) * \<bar>dx / s * 5\<bar>"
proof -
  define \<epsilon> :: real where "\<epsilon> = 2 powr (- 53)"
  obtain a where a: "\<bar>a\<bar> \<le> \<epsilon>" and fa: "float64 s = s * (1 + a)"
    using float64_relative [of s] unfolding \<epsilon>_def by blast
  obtain b where b: "\<bar>b\<bar> \<le> \<epsilon>" and fb: "float64 (dx / float64 s) = dx / float64 s * (1 + b)"
    using float64_relative [of "dx / float64 s"] unfolding \<epsilon>_def by blast
  obtain c where c: "\<bar>c\<bar> \<le> \<epsilon>"
    and fc: "float64 (float64 (dx / float64 s) * 5) = float64 (dx / float64 s) * 5 * (1 + c)"
    using float64_relative [of "float64 (dx / float64 s) * 5"] unfolding \<epsilon>_def by blast
  have e: "\<epsilon> \<le> 1 / 8" unfolding \<epsilon>_def by (rule eps_small(1))
  have "7 / 8 \<le> 1 + a" using a e by linarith
  then have dpos: "0 < 1 + a" by linarith
  have v: "float64 (float64 (dx / float64 s) * 5) = dx / s * 5 * ((1 + b) * (1 + c) / (1 + a))"
  proof -
    have "float64 (float64 (dx / float64 s) * 5) = float64 (dx / float64 s) * 5 * (1 + c)"
      by (rule fc)
    also have "\<dots> = dx / float64 s * (1 + b) * 5 * (1 + c)"
      by (simp only: fb)
    also have "\<dots> = dx / (s * (1 + a)) * (1 + b) * 5 * (1 + c)"
      by (simp only: fa)
    also have "\<dots> = dx / s * 5 * ((1 + b) * (1 + c) / (1 + a))"
      using assms dpos by (simp add: field_simps)
    finally show ?thesis .
  qed
  have "float64 (float64 (dx / float64 s) * 5) - dx / s * 5
      = dx / s * 5 * ((1 + b) * (1 + c) / (1 + a) - 1)"
    by (simp only: v right_diff_distrib mult_1_right)
  then have "\<bar>float64 (float64 (dx / float64 s) * 5) - dx / s * 5\<bar>
      = \<bar>dx / s * 5\<bar> * \<bar>(1 + b) * (1 + c) / (1 + a) - 1\<bar>"
    by (simp only: abs_mult)
  also have "\<dots> \<le> \<bar>dx / s * 5\<bar> * (4 * \<epsilon>)"
    using three_roundings [OF a b c e] by (intro mult_left_mono) simp_all
  also have "4 * \<epsilon> = 2 powr (- 51)"
  proof -
    have "(2::real) powr (- 51) = 2 powr (2 + (- 53))" by simp
    also have "\<dots> = 2 powr 2 * 2 powr (- 53)" by (simp only: powr_add)
    also have "\<dots> = 4 * \<epsilon>" by (simp add: \<epsilon>_def)
    finally show ?thesis by simp
  qed
  finally show ?thesis by (simp only: mult.commute)
qed

subsection \<open>Bullet vs enemy collision\<close>

lemma wrap64_id: "- (2 ^ 63) \<le> x \<Longrightarrow> x < 2 ^ 63 \<Longrightarrow> wrap64 x = x"
  by (simp add: wrap64_def)

lemma hitEnemy_miss:
  "(\<forall>e\<in>set es. \<not> bulletHits b e) \<Longrightarrow> hitEnemy b es = (es, False)"
  by (induction es) simp_all

lemma hitEnemy_hit:
  "(\<forall>x\<in>set pre. \<not> bulletHits b x) \<Longrightarrow> bulletHits b e \<Longrightarrow>
     hitEnemy b (pre @ e # post) = (pre @ e\<lparr>Dead := True\<rparr> # post, True)"
  by (induction pre) simp_all

lemma hitEnemy_length: "length (fst (hitEnemy b es)) = length es"
  by (induction es) (auto split: prod.splits)

lemma hitEnemy_dead:
  "length (filter Dead (fst (hitEnemy b es)))
     = length (filter Dead es) + (if snd (hitEnemy b es) then 1 else 0)"
  by (induction es) (auto simp add: bulletHits_def split: prod.splits)

lemma bulletLoop_count:
  assumes "bulletLoop bs es sc = (r, es', sc')"
  shows "length es' = length es \<and> length r \<le> length bs
       \<and> length (filter Dead es') = length (filter Dead es) + (length bs - length r)"
  using assms
proof (induction bs arbitrary: es sc r es' sc')
  case Nil
  then show ?case by simp
next
  case (Cons b bs)
  obtain es1 hit where h: "hitEnemy b es = (es1, hit)" by (cases "hitEnemy b es")
  have len1: "length es1 = length es"
    using hitEnemy_length [of b es] h by simp
  have dead1: "length (filter Dead es1) = length (filter Dead es) + (if hit then 1 else 0)"
    using hitEnemy_dead [of b es] h by simp
  show ?case
  proof (cases hit)
    case True
    then have "bulletLoop bs es1 (wrap64 (sc + 1)) = (r, es', sc')"
      using Cons.prems h by simp
    from Cons.IH [OF this] len1 dead1 True show ?thesis by auto
  next
    case False
    obtain r1 es2 sc2 where l: "bulletLoop bs es1 sc = (r1, es2, sc2)"
      by (cases "bulletLoop bs es1 sc") auto
    then have "r = b # r1" "es' = es2" "sc' = sc2"
      using Cons.prems h False by simp_all
    with Cons.IH [OF l] len1 dead1 False show ?thesis by auto
  qed
qed

lemma bulletLoop_score:
  assumes "bulletLoop bs es sc = (r, es', sc')"
    and "- (2 ^ 63) \<le> sc" and "sc + int (length bs) < 2 ^ 63"
  shows "sc' = sc + int (length bs - length r)"
  using assms
proof (induction bs arbitrary: es sc r es' sc')
  case Nil
  then show ?case by simp
next
  case (Cons b bs)
  obtain es1 hit where h: "hitEnemy b es = (es1, hit)" by (cases "hitEnemy b es")
  show ?case
  proof (cases hit)
    case True
    have w: "wrap64 (sc + 1) = sc + 1"
      using Cons.prems(2,3) by (intro wrap64_id) simp_all
    have l: "bulletLoop bs es1 (sc + 1) = (r, es', sc')"
      using Cons.prems(1) h True w by simp
    have "length r \<le> length bs"
      using bulletLoop_count [OF l] by simp
    moreover have "sc' = sc + 1 + int (length bs - length r)"
      using Cons.IH [OF l] Cons.prems(2,3) by simp
    ultimately show ?thesis by simp
  next
    case False
    obtain r1 es2 sc2 where l: "bulletLoop bs es1 sc = (r1, es2, sc2)"
      by (cases "bulletLoop bs es1 sc") auto
    then have eq: "r = b # r1" "es' = es2" "sc' = sc2"
      using Cons.prems(1) h False by simp_all
    have "sc2 = sc + int (length bs - length r1)"
      using Cons.IH [OF l] Cons.prems(2,3) by simp
    then show ?thesis using eq by simp
  qed
qed

lemma length_filter_not:
  "length (filter (\<lambda>e. \<not> P e) xs) = length xs - length (filter P xs)"
  using sum_length_filter_compl [of P xs] by simp


lemma bulletLoop_Cons_miss:
  assumes "\<forall>x\<in>set es. \<not> bulletHits b x"
  shows "bulletLoop (b # bs) es sc =
     (case bulletLoop bs es sc of (r, es', sc') \<Rightarrow> (b # r, es', sc'))"
  using hitEnemy_miss [OF assms] by simp

lemma bulletLoop_Cons_hit:
  assumes "\<forall>x\<in>set pre. \<not> bulletHits b x" and "bulletHits b e"
  shows "bulletLoop (b # bs) (pre @ e # post) sc =
     bulletLoop bs (pre @ e\<lparr>Dead := True\<rparr> # post) (wrap64 (sc + 1))"
  using hitEnemy_hit [OF assms] by simp

lemma collision_no_dead: "\<forall>x\<in>set (enemies (bulletVsEnemyCollision g)). \<not> Dead x"
  by (simp add: bulletVsEnemyCollision_def split: prod.splits)

lemma collision_enemies:
  "enemies (bulletVsEnemyCollision g) =
     filter (\<lambda>x. \<not> Dead x) (fst (snd (bulletLoop (bullets g) (enemies g) (score g))))"
  by (simp add: bulletVsEnemyCollision_def split: prod.splits)

lemma collision_counts:
  assumes alive: "\<forall>x\<in>set (enemies g). \<not> Dead x"
    and lo: "- (2 ^ 63) \<le> score g" and hi: "score g + int (length (bullets g)) < 2 ^ 63"
  shows "\<exists>k. length (bullets (bulletVsEnemyCollision g)) + k = length (bullets g)
     \<and> length (enemies (bulletVsEnemyCollision g)) + k = length (enemies g)
     \<and> score (bulletVsEnemyCollision g) = score g + int k"
proof -
  obtain r es' sc' where l: "bulletLoop (bullets g) (enemies g) (score g) = (r, es', sc')"
    by (cases "bulletLoop (bullets g) (enemies g) (score g)") auto
  define k where "k = length (bullets g) - length r"
  have c: "length es' = length (enemies g)" "length r \<le> length (bullets g)"
    "length (filter Dead es') = length (filter Dead (enemies g)) + k"
    using bulletLoop_count [OF l] by (simp_all add: k_def)
  have nodead: "filter Dead (enemies g) = []"
    using alive by (simp add: filter_empty_conv)
  have "length (filter (\<lambda>x. \<not> Dead x) es') = length es' - length (filter Dead es')"
    by (rule length_filter_not)
  then have e: "length (filter (\<lambda>x. \<not> Dead x) es') + k = length (enemies g)"
    using c nodead length_filter_le [of Dead es'] by simp
  have sc: "sc' = score g + int k"
    using bulletLoop_score [OF l lo hi] by (simp add: k_def)
  have g': "bulletVsEnemyCollision g =
      g\<lparr>score := sc', enemies := filter (\<lambda>x. \<not> Dead x) es', bullets := r\<rparr>"
    by (simp add: bulletVsEnemyCollision_def l)
  show ?thesis
    apply (rule exI [of _ k])
    using c e sc by (simp add: g' k_def)
qed

lemma bulletHits_overlaps: "bulletHits b e \<longleftrightarrow> \<not> Dead e \<and> bulletOverlaps b e"
  by (simp add: bulletHits_def bulletOverlaps_def)

lemma bulletLoop_all_miss:
  "(\<forall>b\<in>set bs. \<forall>e\<in>set es. \<not> bulletHits b e) \<Longrightarrow> bulletLoop bs es sc = (bs, es, sc)"
proof (induction bs)
  case Nil
  then show ?case by simp
next
  case (Cons a bs)
  then have "hitEnemy a es = (es, False)"
    by (intro hitEnemy_miss) simp
  then show ?case using Cons by simp
qed

lemma bulletLoop_append:
  "bulletLoop (xs @ ys) es sc =
     (case bulletLoop xs es sc of
        (r1, es1, sc1) \<Rightarrow>
          (case bulletLoop ys es1 sc1 of (r2, es2, sc2) \<Rightarrow> (r1 @ r2, es2, sc2)))"
proof (induction xs arbitrary: es sc)
  case Nil
  then show ?case by (simp split: prod.splits)
next
  case (Cons a xs)
  show ?case
    by (simp add: Cons.IH split: prod.splits)
qed

lemma collision_one_hit:
  assumes bs: "bullets g = bs1 @ b # bs2" and es: "enemies g = pre @ e # post"
    and others: "\<forall>x\<in>set (pre @ post). \<not> Dead x \<and> \<not> bulletOverlaps b x"
    and live: "\<not> Dead e" and hit: "bulletOverlaps b e"
    and rest: "\<forall>b'\<in>set (bs1 @ bs2). \<forall>x\<in>set (pre @ e # post). \<not> bulletOverlaps b' x"
    and lo: "- (2 ^ 63) \<le> score g" and hi: "score g + 1 < 2 ^ 63"
  shows "bulletVsEnemyCollision g =
     g\<lparr>score := score g + 1, enemies := pre @ post, bullets := bs1 @ bs2\<rparr>"
proof -
  let ?es' = "pre @ e\<lparr>Dead := True\<rparr> # post"
  have 1: "bulletLoop bs1 (pre @ e # post) (score g) = (bs1, pre @ e # post, score g)"
    using rest by (intro bulletLoop_all_miss) (simp add: bulletHits_overlaps)
  have pre: "\<forall>x\<in>set pre. \<not> bulletHits b x"
    using others by (simp add: bulletHits_overlaps)
  have e: "bulletHits b e"
    using live hit by (simp add: bulletHits_overlaps)
  have w: "wrap64 (score g + 1) = score g + 1"
    using lo hi by (intro wrap64_id) simp_all
  have 2: "bulletLoop (b # bs2) (pre @ e # post) (score g) = bulletLoop bs2 ?es' (score g + 1)"
    using bulletLoop_Cons_hit [OF pre e, of bs2 post "score g"] w by simp
  have "\<forall>b'\<in>set bs2. \<forall>x\<in>set ?es'. \<not> bulletHits b' x"
    using rest by (auto simp add: bulletHits_overlaps bulletOverlaps_def)
  then have 3: "bulletLoop bs2 ?es' (score g + 1) = (bs2, ?es', score g + 1)"
    by (rule bulletLoop_all_miss)
  have loop: "bulletLoop (bs1 @ b # bs2) (pre @ e # post) (score g) = (bs1 @ bs2, ?es', score g + 1)"
    by (simp only: bulletLoop_append 1 prod.case 2 3)
  have "filter (\<lambda>x. \<not> Dead x) ?es' = pre @ post"
    using others by (simp add: filter_id_conv)
  then show ?thesis
    by (simp add: bulletVsEnemyCollision_def bs es loop)
qed

lemma spawnEnemies_alive: "\<forall>x\<in>set (spawnEnemies rnd c n). \<not> Dead x"
  by (induction n arbitrary: c) simp_all

lemma enemyStep_alive:
  assumes "enemyStep rnd c pl e = (Some e', fired, c')" and "\<not> Dead e"
  shows "\<not> Dead e'"
  using assms
  by (auto simp add: enemyStep_def Let_def split: if_splits option.splits)

lemma enemyLoop_alive:
  assumes "\<forall>x\<in>set es. \<not> Dead x"
  shows "\<forall>x\<in>set (fst (enemyLoop rnd c pl es)). \<not> Dead x"
  using assms
proof (induction es arbitrary: c)
  case Nil
  then show ?case by simp
next
  case (Cons e es)
  obtain kept fired c' where st: "enemyStep rnd c pl e = (kept, fired, c')"
    by (cases "enemyStep rnd c pl e") auto
  have tail: "\<forall>x\<in>set (fst (enemyLoop rnd c' pl es)). \<not> Dead x"
    using Cons.IH [of c'] Cons.prems by simp
  have head: "\<forall>x\<in>set (case kept of None \<Rightarrow> [] | Some e' \<Rightarrow> [e']). \<not> Dead x"
    using enemyStep_alive [of rnd c pl e _ fired c'] st Cons.prems
    by (cases kept) simp_all
  show ?case
    using head tail by (auto simp add: st split: prod.splits)
qed

lemma enemies_enemySpawning:
  "\<exists>new. enemies (fst (enemySpawning rnd g)) = enemies g @ new \<and> (\<forall>x\<in>set new. \<not> Dead x)"
proof (cases "spawnInterval g \<le> wrap64 (spawnCounter g + 1)")
  case True
  then show ?thesis
    using spawnEnemies_alive
    by (simp add: enemySpawning_def Let_def)
next
  case False
  then have "enemies (fst (enemySpawning rnd g)) = enemies g @ []"
    by (simp add: enemySpawning_def Let_def)
  then show ?thesis by (intro exI [of _ "[]"]) simp
qed

lemma enemies_phase:
  "enemies (playerMovement inp g) = enemies g"
  "enemies (shooting inp g) = enemies g"
  "enemies (decreaseSpawnInterval g) = enemies g"
  "enemies (enemyBulletsMovement g) = enemies g"
  "enemies (playerBulletsMovement g) = enemies g"
  by (simp_all add: playerMovement_def shooting_def decreaseSpawnInterval_def
      enemyBulletsMovement_def playerBulletsMovement_def Let_def split: option.splits)

lemma enemies_enemyMovementAndShooting:
  "enemies (enemyMovementAndShooting rnd c g) = fst (enemyLoop rnd c (player g) (enemies g))"
  by (simp add: enemyMovementAndShooting_def split: prod.splits)

lemma beforeCollision_alive:
  assumes "\<forall>x\<in>set (enemies g). \<not> Dead x"
  shows "\<forall>x\<in>set (enemies (beforeCollision inp g)). \<not> Dead x"
proof -
  let ?g4 = "decreaseSpawnInterval (shooting inp (playerMovement inp
      (g\<lparr>elapsedFrames := wrap64 (elapsedFrames g + 1)\<rparr>)))"
  obtain new where n: "enemies (fst (enemySpawning (randSource inp) ?g4)) = enemies ?g4 @ new"
    and a: "\<forall>x\<in>set new. \<not> Dead x"
    using enemies_enemySpawning by blast
  have "enemies ?g4 = enemies g" by (simp add: enemies_phase)
  then have "\<forall>x\<in>set (enemies (fst (enemySpawning (randSource inp) ?g4))). \<not> Dead x"
    using n a assms by auto
  then show ?thesis
    by (simp only: beforeCollision_nested enemies_phase enemies_enemyMovementAndShooting)
      (rule enemyLoop_alive)
qed

lemma simulate_alive: "\<forall>x\<in>set (enemies (simulate inp g)). \<not> Dead x"
  by (simp add: simulate_def collision_no_dead)

text \<open>
  C5. In the collision pass a bullet is tested against the enemies that are not marked
  dead (\<open>bulletHits\<close>). A bullet that hits none goes to the remaining bullets and the
  pass goes on with the same enemies and score. Otherwise the first enemy it hits, in
  list order, is marked dead and no other, the score grows by 1 (in the range of the
  counter) and the bullet is dropped. An enemy marked dead is hit by no later bullet.
  After the pass the enemy list is the enemies not marked. From a list without marked
  enemies, the pass removes as many bullets as enemies and adds that number to the
  score; a bullet that overlaps exactly one enemy, when no other bullet overlaps any,
  removes that enemy and itself and adds exactly 1. (No enemy is marked when the pass
  of a tick starts, if none was before the tick; none is after it.)
\<close>

theorem bullet_enemy_collision_pass:
  "((\<forall>x\<in>set es. \<not> bulletHits b x) \<longrightarrow>
       bulletLoop (b # bs) es sc =
         (case bulletLoop bs es sc of (r, es', sc') \<Rightarrow> (b # r, es', sc')))
   \<and> ((\<forall>x\<in>set pre. \<not> bulletHits b x) \<and> bulletHits b e \<longrightarrow>
       bulletLoop (b # bs) (pre @ e # post) sc =
         bulletLoop bs (pre @ e\<lparr>Dead := True\<rparr> # post) (wrap64 (sc + 1)))
   \<and> (- (2 ^ 63) \<le> sc \<and> sc + 1 < 2 ^ 63 \<longrightarrow> wrap64 (sc + 1) = sc + 1)
   \<and> (bulletHits b d \<longleftrightarrow>
        \<not> Dead d \<and> rectsOverlap (Bullet.X b) (Bullet.Y b) (Bullet.Size b)
                                 (Enemy.X d) (Enemy.Y d) (Enemy.Size d))
   \<and> (Dead d \<longrightarrow> \<not> bulletHits b d)
   \<and> enemies (bulletVsEnemyCollision g) =
        filter (\<lambda>x. \<not> Dead x) (fst (snd (bulletLoop (bullets g) (enemies g) (score g))))
   \<and> (\<forall>x\<in>set (enemies (bulletVsEnemyCollision g)). \<not> Dead x)
   \<and> ((\<forall>x\<in>set (enemies g). \<not> Dead x)
        \<and> - (2 ^ 63) \<le> score g \<and> score g + int (length (bullets g)) < 2 ^ 63 \<longrightarrow>
       (\<exists>k. length (bullets (bulletVsEnemyCollision g)) + k = length (bullets g)
           \<and> length (enemies (bulletVsEnemyCollision g)) + k = length (enemies g)
           \<and> score (bulletVsEnemyCollision g) = score g + int k))
   \<and> (bullets g = bs1 @ b # bs2 \<and> enemies g = pre @ e # post
        \<and> (\<forall>x\<in>set (pre @ post). \<not> Dead x \<and> \<not> bulletOverlaps b x)
        \<and> \<not> Dead e \<and> bulletOverlaps b e
        \<and> (\<forall>b'\<in>set (bs1 @ bs2). \<forall>x\<in>set (pre @ e # post). \<not> bulletOverlaps b' x)
        \<and> - (2 ^ 63) \<le> score g \<and> score g + 1 < 2 ^ 63 \<longrightarrow>
       bulletVsEnemyCollision g =
         g\<lparr>score := score g + 1, enemies := pre @ post, bullets := bs1 @ bs2\<rparr>)
   \<and> ((\<forall>x\<in>set (enemies g). \<not> Dead x) \<longrightarrow>
        (\<forall>x\<in>set (enemies (beforeCollision inp g)). \<not> Dead x))"
proof -
  have 1: "(\<forall>x\<in>set es. \<not> bulletHits b x) \<longrightarrow>
       bulletLoop (b # bs) es sc =
         (case bulletLoop bs es sc of (r, es', sc') \<Rightarrow> (b # r, es', sc'))"
    using bulletLoop_Cons_miss by blast
  have 2: "(\<forall>x\<in>set pre. \<not> bulletHits b x) \<and> bulletHits b e \<longrightarrow>
       bulletLoop (b # bs) (pre @ e # post) sc =
         bulletLoop bs (pre @ e\<lparr>Dead := True\<rparr> # post) (wrap64 (sc + 1))"
    using bulletLoop_Cons_hit by blast
  have 3: "- (2 ^ 63) \<le> sc \<and> sc + 1 < 2 ^ 63 \<longrightarrow> wrap64 (sc + 1) = sc + 1"
    using wrap64_id [of "sc + 1"] by simp
  have 4: "bulletHits b d \<longleftrightarrow>
        \<not> Dead d \<and> rectsOverlap (Bullet.X b) (Bullet.Y b) (Bullet.Size b)
                                 (Enemy.X d) (Enemy.Y d) (Enemy.Size d)"
    by (simp add: bulletHits_def)
  have 5: "Dead d \<longrightarrow> \<not> bulletHits b d"
    by (simp add: bulletHits_def)
  have 8: "(\<forall>x\<in>set (enemies g). \<not> Dead x)
        \<and> - (2 ^ 63) \<le> score g \<and> score g + int (length (bullets g)) < 2 ^ 63 \<longrightarrow>
       (\<exists>k. length (bullets (bulletVsEnemyCollision g)) + k = length (bullets g)
           \<and> length (enemies (bulletVsEnemyCollision g)) + k = length (enemies g)
           \<and> score (bulletVsEnemyCollision g) = score g + int k)"
    using collision_counts [of g] by blast
  have 9: "bullets g = bs1 @ b # bs2 \<and> enemies g = pre @ e # post
        \<and> (\<forall>x\<in>set (pre @ post). \<not> Dead x \<and> \<not> bulletOverlaps b x)
        \<and> \<not> Dead e \<and> bulletOverlaps b e
        \<and> (\<forall>b'\<in>set (bs1 @ bs2). \<forall>x\<in>set (pre @ e # post). \<not> bulletOverlaps b' x)
        \<and> - (2 ^ 63) \<le> score g \<and> score g + 1 < 2 ^ 63 \<longrightarrow>
       bulletVsEnemyCollision g =
         g\<lparr>score := score g + 1, enemies := pre @ post, bullets := bs1 @ bs2\<rparr>"
    using collision_one_hit [of g bs1 b bs2 pre e post] by blast
  have 10: "(\<forall>x\<in>set (enemies g). \<not> Dead x) \<longrightarrow>
        (\<forall>x\<in>set (enemies (beforeCollision inp g)). \<not> Dead x)"
    using beforeCollision_alive [of g inp] by blast
  show ?thesis
    using 1 2 3 4 5 collision_enemies [of g] collision_no_dead [of g] 8 9 10 by blast
qed

theorem bullet_enemy_collision_pass_witness:
  "\<not> bulletHits flyingBullet farEnemy
   \<and> bulletHits flyingBullet nearEnemy
   \<and> bulletLoop [flyingBullet] [farEnemy] 0 = ([flyingBullet], [farEnemy], 0)
   \<and> bulletLoop [flyingBullet] [farEnemy, nearEnemy] 0
       = ([], [farEnemy, nearEnemy\<lparr>Dead := True\<rparr>], 1)
   \<and> Dead (nearEnemy\<lparr>Dead := True\<rparr>)
   \<and> \<not> bulletHits flyingBullet (nearEnemy\<lparr>Dead := True\<rparr>)
   \<and> bullets hitGame = [flyingBullet, strayBullet]
   \<and> enemies hitGame = [farEnemy, nearEnemy]
   \<and> \<not> Dead farEnemy \<and> \<not> Dead nearEnemy
   \<and> \<not> bulletOverlaps flyingBullet farEnemy \<and> bulletOverlaps flyingBullet nearEnemy
   \<and> \<not> bulletOverlaps strayBullet farEnemy \<and> \<not> bulletOverlaps strayBullet nearEnemy
   \<and> score hitGame = 0
   \<and> bulletVsEnemyCollision hitGame
       = hitGame\<lparr>score := 1, enemies := [farEnemy], bullets := [strayBullet]\<rparr>
   \<and> length (bullets (bulletVsEnemyCollision hitGame)) + 1 = length (bullets hitGame)
   \<and> length (enemies (bulletVsEnemyCollision hitGame)) + 1 = length (enemies hitGame)"
  using bullet_enemy_collision_pass [where es = "[farEnemy]" and b = flyingBullet and bs = "[]"
      and sc = 0 and pre = "[farEnemy]" and e = nearEnemy and post = "[]"
      and d = "nearEnemy\<lparr>Dead := True\<rparr>" and g = hitGame
      and ?bs1.0 = "[]" and ?bs2.0 = "[strayBullet]" and inp = idleInput]
  by (simp add: hitGame_def annWorld_eq flyingBullet_def strayBullet_def nearEnemy_def
      farEnemy_def bulletVsEnemyCollision_def bulletHits_def bulletOverlaps_def
      rectsOverlap_def wrap64_def)

subsection \<open>Enemies\<close>

lemma Intn_range: "0 < n \<Longrightarrow> 0 \<le> Intn rnd i n \<and> Intn rnd i n < int n"
  by (simp add: Intn_def)

lemma sum_squares_pos:
  fixes dx dy :: real
  assumes "dx * dx + dy * dy \<noteq> 0"
  shows "0 < dx * dx + dy * dy"
proof -
  have "0 \<le> dx * dx" and "0 \<le> dy * dy" by simp_all
  then have "0 \<le> dx * dx + dy * dy" by linarith
  with assms show ?thesis by linarith
qed

lemma aim_speed:
  fixes dx dy :: real
  assumes "dx * dx + dy * dy \<noteq> 0"
  shows "(dx / sqrt (dx * dx + dy * dy) * 5)\<^sup>2 + (dy / sqrt (dx * dx + dy * dy) * 5)\<^sup>2 = 25"
proof -
  define d where "d = dx * dx + dy * dy"
  have pos: "0 < d"
    unfolding d_def using sum_squares_pos [OF assms] .
  then have sq: "(sqrt d)\<^sup>2 = d" by simp
  have "(dx / sqrt d * 5)\<^sup>2 + (dy / sqrt d * 5)\<^sup>2
      = 25 * (dx * dx) / (sqrt d)\<^sup>2 + 25 * (dy * dy) / (sqrt d)\<^sup>2"
    by (simp add: power2_eq_square)
  also have "\<dots> = 25 * (dx * dx) / d + 25 * (dy * dy) / d"
    by (simp only: sq)
  also have "\<dots> = 25 * d / d"
    by (simp add: d_def add_divide_distrib distrib_left)
  also have "\<dots> = 25" using pos by simp
  finally show ?thesis unfolding d_def .
qed

lemma enemyStep_draws:
  "snd (snd (enemyStep rnd c pl e)) =
     c + (case fst (snd (enemyStep rnd c pl e)) of None \<Rightarrow> 0 | Some eb \<Rightarrow> 1)"
  by (simp add: enemyStep_def Let_def split: option.splits)

lemma enemyLoop_Cons:
  "enemyLoop rnd c pl (e # es) =
     ((case fst (enemyStep rnd c pl e) of None \<Rightarrow> [] | Some e' \<Rightarrow> [e'])
        @ fst (enemyLoop rnd (snd (snd (enemyStep rnd c pl e))) pl es),
      (case fst (snd (enemyStep rnd c pl e)) of None \<Rightarrow> [] | Some eb \<Rightarrow> [eb])
        @ snd (enemyLoop rnd (snd (snd (enemyStep rnd c pl e))) pl es))"
  by (simp split: prod.splits)

lemma enemyLoop_append:
  "enemyLoop rnd c pl (xs @ ys) =
     (fst (enemyLoop rnd c pl xs)
        @ fst (enemyLoop rnd (c + length (snd (enemyLoop rnd c pl xs))) pl ys),
      snd (enemyLoop rnd c pl xs)
        @ snd (enemyLoop rnd (c + length (snd (enemyLoop rnd c pl xs))) pl ys))"
proof (induction xs arbitrary: c)
  case Nil
  then show ?case by simp
next
  case (Cons x xs)
  let ?c1 = "snd (snd (enemyStep rnd c pl x))"
  have c1: "?c1 = c + (case fst (snd (enemyStep rnd c pl x)) of None \<Rightarrow> 0 | Some eb \<Rightarrow> 1)"
    by (rule enemyStep_draws)
  have len: "c + length (snd (enemyLoop rnd c pl (x # xs)))
      = ?c1 + length (snd (enemyLoop rnd ?c1 pl xs))"
    by (simp only: enemyLoop_Cons snd_conv length_append c1) (simp split: option.splits)
  have "enemyLoop rnd c pl ((x # xs) @ ys) = enemyLoop rnd c pl (x # (xs @ ys))" by simp
  also have "\<dots> =
     ((case fst (enemyStep rnd c pl x) of None \<Rightarrow> [] | Some e' \<Rightarrow> [e'])
        @ fst (enemyLoop rnd ?c1 pl (xs @ ys)),
      (case fst (snd (enemyStep rnd c pl x)) of None \<Rightarrow> [] | Some eb \<Rightarrow> [eb])
        @ snd (enemyLoop rnd ?c1 pl (xs @ ys)))"
    by (rule enemyLoop_Cons)
  finally show ?case
    by (simp only: Cons.IH [of ?c1] len fst_conv snd_conv)
       (simp only: enemyLoop_Cons [of rnd c pl x xs] fst_conv snd_conv append_assoc)
qed

lemma enemyBullets_enemyMovementAndShooting:
  "enemyBullets (enemyMovementAndShooting rnd c g) =
     enemyBullets g @ snd (enemyLoop rnd c (player g) (enemies g))"
  by (simp add: enemyMovementAndShooting_def split: prod.splits)

lemma enemyBullets_phase:
  "enemyBullets (playerMovement inp g) = enemyBullets g"
  "enemyBullets (shooting inp g) = enemyBullets g"
  "enemyBullets (decreaseSpawnInterval g) = enemyBullets g"
  "enemyBullets (fst (enemySpawning rnd g)) = enemyBullets g"
  "enemyBullets (playerBulletsMovement g) = enemyBullets g"
  "enemyBullets (bulletVsEnemyCollision g) = enemyBullets g"
  by (simp_all add: playerMovement_def shooting_def decreaseSpawnInterval_def
      enemySpawning_def playerBulletsMovement_def bulletVsEnemyCollision_def Let_def
      split: option.splits prod.splits)

lemma beforeCollision_beforeEnemies:
  "beforeCollision inp g =
     playerBulletsMovement (enemyBulletsMovement
       (enemyMovementAndShooting (randSource inp) (snd (beforeEnemies inp g))
          (fst (beforeEnemies inp g))))"
  by (simp only: beforeCollision_nested beforeEnemies_def)

lemma enemyBullets_simulate:
  "enemyBullets (simulate inp g) =
     filter enemyBulletOnScreen (map moveEnemyBullet
       (enemyBullets (enemyMovementAndShooting (randSource inp) (snd (beforeEnemies inp g))
          (fst (beforeEnemies inp g)))))"
  by (simp only: simulate_def beforeCollision_beforeEnemies enemyBullets_phase)
     (simp add: enemyBulletsMovement_def)

lemma beforeEnemies_frame:
  "player (fst (beforeEnemies inp g)) = map_option (movePlayer inp) (player g)"
  "enemyBullets (fst (beforeEnemies inp g)) = enemyBullets g"
  "take (length (enemies g)) (enemies (fst (beforeEnemies inp g))) = enemies g"
proof -
  show "player (fst (beforeEnemies inp g)) = map_option (movePlayer inp) (player g)"
    by (simp add: beforeEnemies_def player_phase)
  show "enemyBullets (fst (beforeEnemies inp g)) = enemyBullets g"
    by (simp add: beforeEnemies_def enemyBullets_phase)
  let ?g4 = "decreaseSpawnInterval (shooting inp (playerMovement inp
      (g\<lparr>elapsedFrames := wrap64 (elapsedFrames g + 1)\<rparr>)))"
  obtain new where n: "enemies (fst (enemySpawning (randSource inp) ?g4)) = enemies ?g4 @ new"
    using enemies_enemySpawning by blast
  have "enemies ?g4 = enemies g" by (simp add: enemies_phase)
  then show "take (length (enemies g)) (enemies (fst (beforeEnemies inp g))) = enemies g"
    using n by (simp add: beforeEnemies_def)
qed

lemma sqrt_2704: "sqrt 2704 = 52"
  by (rule real_sqrt_unique) simp_all

lemma float64_52: "float64 52 = 52"
  using float64_scaled [of 52 47] by (simp add: roundEven_def)

lemma float64_20_52: "float64 (20 / 52) = 6928614811339225 / 18014398509481984"
  using float64_scaled [of "20 / 52" 54] by (simp add: roundEven_def)

lemma float64_48_52: "float64 (48 / 52) = 4157168886803535 / 4503599627370496"
  using float64_scaled [of "48 / 52" 53] by (simp add: roundEven_def)

lemma float64_vx:
  "float64 (6928614811339225 / 18014398509481984 * 5) = 8660768514174031 / 4503599627370496"
  using float64_scaled [of "6928614811339225 / 18014398509481984 * 5" 52]
  by (simp add: roundEven_def)

lemma float64_vy:
  "float64 (4157168886803535 / 4503599627370496 * 5) = 5196461108504419 / 1125899906842624"
  using float64_scaled [of "4157168886803535 / 4503599627370496 * 5" 50]
  by (simp add: roundEven_def)

lemma float64_x1:
  "float64 (313 + 8660768514174031 / 4503599627370496) = 1385046339727675 / 4398046511104"
  using float64_scaled [of "313 + 8660768514174031 / 4503599627370496" 44]
  by (simp add: roundEven_def)

lemma float64_y1:
  "float64 (205 + 5196461108504419 / 1125899906842624) = 7375185687851323 / 35184372088832"
  using float64_scaled [of "205 + 5196461108504419 / 1125899906842624" 45]
  by (simp add: roundEven_def)

lemma aim_vx:
  "float64 (float64 (5 / 13) * 5) = 8660768514174031 / 4503599627370496"
proof -
  have "(5::real) / 13 = 20 / 52" by simp
  then show ?thesis by (simp only: float64_20_52 float64_vx)
qed

lemma aim_vy:
  "float64 (float64 (12 / 13) * 5) = 5196461108504419 / 1125899906842624"
proof -
  have "(12::real) / 13 = 48 / 52" by simp
  then show ?thesis by (simp only: float64_48_52 float64_vy)
qed

lemma move_x:
  "float64 (1418287451881139279 / 4503599627370496) = 1385046339727675 / 4398046511104"
proof -
  have "(1418287451881139279 / 4503599627370496 :: real)
      = 313 + 8660768514174031 / 4503599627370496" by simp
  then show ?thesis by (simp only: float64_x1)
qed

lemma move_y:
  "float64 (236005942011242339 / 1125899906842624) = 7375185687851323 / 35184372088832"
proof -
  have "(236005942011242339 / 1125899906842624 :: real)
      = 205 + 5196461108504419 / 1125899906842624" by simp
  then show ?thesis by (simp only: float64_y1)
qed

text \<open>
  C9. Take a playing tick and an enemy \<open>e\<close> of the list at the start of the enemy
  loop (\<open>pre\<close> before it, \<open>post\<close> after it), still on the screen after its move, with a
  player \<open>p\<close> present, whose cooldown is zero or below after the decrement; \<open>dx\<close>, \<open>dy\<close>
  lead from the enemy's centre to the player's centre and \<open>d = dx * dx + dy * dy\<close>.

  If \<open>d = 0\<close> the enemy fires nothing: it keeps the decremented cooldown, and the
  bullets appended to \<^verbatim>\<open>g.enemyBullets\<close> are those of the other enemies. Otherwise
  the divisor \<^verbatim>\<open>length\<close>, the rounded square root of \<open>d\<close>, is positive, and exactly
  one bullet \<open>eb\<close> is appended to \<^verbatim>\<open>g.enemyBullets\<close> for this enemy, between the bullets
  of the enemies before and after it. It starts at the enemy's centre; its velocity is
  \<^verbatim>\<open>dx / length * speed\<close>, \<^verbatim>\<open>dy / length * speed\<close> as \<^verbatim>\<open>float64\<close> computes them, each
  within the relative error \<open>2\<^sup>-\<^sup>5\<^sup>1\<close> of the component of \<open>(dx, dy) / sqrt d * 5\<close>, the
  unit vector toward the player times 5. One draw is consumed and the new cooldown is
  \<open>60 + Intn 60\<close>, in \<open>[60, 120)\<close>.

  After the loop the tick moves the enemy bullets and keeps those on the screen, so the
  new bullet is in the game's list after the tick's simulation, one step further,
  unless that step takes it off the screen.
\<close>

theorem enemy_fires_when_cooldown_elapsed:
  fixes p :: Player and e :: Enemy and g :: Game and inp :: Input and pre post :: "Enemy list"
  defines "rnd \<equiv> randSource inp"
  defines "g5 \<equiv> fst (beforeEnemies inp g)"
  defines "c0 \<equiv> snd (beforeEnemies inp g)"
  defines "c \<equiv> c0 + length (snd (enemyLoop rnd c0 (Some p) pre))"
  defines "y' \<equiv> Enemy.Y e + Enemy.SpeedY e"
  defines "dx \<equiv> (Player.X p + Player.Size p / 2) - (Enemy.X e + Enemy.Size e / 2)"
  defines "dy \<equiv> (Player.Y p + Player.Size p / 2) - (y' + Enemy.Size e / 2)"
  defines "d \<equiv> dx * dx + dy * dy"
  defines "eb \<equiv> \<lparr>EnemyBullet.X = Enemy.X e + Enemy.Size e / 2 - 3,
                  EnemyBullet.Y = y' + Enemy.Size e / 2 - 3,
                  EnemyBullet.SpeedX = float64 (float64 (dx / float64 (sqrt d)) * 5),
                  EnemyBullet.SpeedY = float64 (float64 (dy / float64 (sqrt d)) * 5),
                  EnemyBullet.Size = 6\<rparr>"
  assumes pl: "player g5 = Some p"
    and en: "enemies g5 = pre @ e # post"
    and onscreen: "\<not> y' + Enemy.Size e < 0"
    and elapsed: "wrap64 (Cooldown e - 1) \<le> 0"
  shows "(d = 0 \<longrightarrow>
            enemyStep rnd c (Some p) e =
              (Some (e\<lparr>Enemy.Y := y', Cooldown := wrap64 (Cooldown e - 1)\<rparr>), None, c)
            \<and> enemyBullets (enemyMovementAndShooting rnd c0 g5) =
                enemyBullets g5 @ snd (enemyLoop rnd c0 (Some p) pre)
                  @ snd (enemyLoop rnd c (Some p) post)
            \<and> enemies (enemyMovementAndShooting rnd c0 g5) =
                fst (enemyLoop rnd c0 (Some p) pre)
                  @ e\<lparr>Enemy.Y := y', Cooldown := wrap64 (Cooldown e - 1)\<rparr>
                  # fst (enemyLoop rnd c (Some p) post))
       \<and> (d \<noteq> 0 \<longrightarrow>
            0 < float64 (sqrt d)
            \<and> enemyStep rnd c (Some p) e =
                (Some (e\<lparr>Enemy.Y := y', Cooldown := 60 + Intn rnd c 60\<rparr>), Some eb, c + 1)
            \<and> enemyBullets (enemyMovementAndShooting rnd c0 g5) =
                enemyBullets g5 @ snd (enemyLoop rnd c0 (Some p) pre)
                  @ eb # snd (enemyLoop rnd (c + 1) (Some p) post)
            \<and> enemies (enemyMovementAndShooting rnd c0 g5) =
                fst (enemyLoop rnd c0 (Some p) pre)
                  @ e\<lparr>Enemy.Y := y', Cooldown := 60 + Intn rnd c 60\<rparr>
                  # fst (enemyLoop rnd (c + 1) (Some p) post)
            \<and> \<bar>EnemyBullet.SpeedX eb - dx / sqrt d * 5\<bar> \<le> 2 powr (- 51) * \<bar>dx / sqrt d * 5\<bar>
            \<and> \<bar>EnemyBullet.SpeedY eb - dy / sqrt d * 5\<bar> \<le> 2 powr (- 51) * \<bar>dy / sqrt d * 5\<bar>
            \<and> (dx / sqrt d * 5)\<^sup>2 + (dy / sqrt d * 5)\<^sup>2 = 25
            \<and> 60 \<le> 60 + Intn rnd c 60 \<and> 60 + Intn rnd c 60 < 120)
       \<and> enemyBullets (simulate inp g) =
           filter enemyBulletOnScreen (map moveEnemyBullet
             (enemyBullets (enemyMovementAndShooting rnd c0 g5)))
       \<and> enemies (beforeCollision inp g) = enemies (enemyMovementAndShooting rnd c0 g5)
       \<and> player g5 = map_option (movePlayer inp) (player g)
       \<and> enemyBullets g5 = enemyBullets g
       \<and> take (length (enemies g)) (enemies g5) = enemies g"
proof -
  let ?dec = "e\<lparr>Enemy.Y := y', Cooldown := wrap64 (Cooldown e - 1)\<rparr>"
  let ?fire = "e\<lparr>Enemy.Y := y', Cooldown := 60 + Intn rnd c 60\<rparr>"
  have loop: "enemyLoop rnd c0 (Some p) (pre @ e # post) =
     (fst (enemyLoop rnd c0 (Some p) pre)
        @ (case fst (enemyStep rnd c (Some p) e) of None \<Rightarrow> [] | Some e' \<Rightarrow> [e'])
        @ fst (enemyLoop rnd (snd (snd (enemyStep rnd c (Some p) e))) (Some p) post),
      snd (enemyLoop rnd c0 (Some p) pre)
        @ (case fst (snd (enemyStep rnd c (Some p) e)) of None \<Rightarrow> [] | Some eb \<Rightarrow> [eb])
        @ snd (enemyLoop rnd (snd (snd (enemyStep rnd c (Some p) e))) (Some p) post))"
    by (simp only: enemyLoop_append [of rnd c0 "Some p" pre "e # post"] enemyLoop_Cons c_def
        fst_conv snd_conv)
  have bullets: "enemyBullets (enemyMovementAndShooting rnd c0 g5) =
      enemyBullets g5 @ snd (enemyLoop rnd c0 (Some p) (pre @ e # post))"
    by (simp only: enemyBullets_enemyMovementAndShooting pl en)
  have enemies: "enemies (enemyMovementAndShooting rnd c0 g5) =
      fst (enemyLoop rnd c0 (Some p) (pre @ e # post))"
    by (simp only: enemies_enemyMovementAndShooting pl en)
  have zero: "enemyStep rnd c (Some p) e = (Some ?dec, None, c)" if "d = 0"
    using that onscreen elapsed
    by (simp add: enemyStep_def Let_def y'_def dx_def dy_def d_def)
  have dpos: "0 < d" if "d \<noteq> 0"
    using that unfolding d_def by (rule sum_squares_pos)
  have fire: "enemyStep rnd c (Some p) e = (Some ?fire, Some eb, c + 1)" if "d \<noteq> 0"
    using dpos [OF that] onscreen elapsed
    by (simp add: enemyStep_def Let_def y'_def dx_def dy_def d_def eb_def)
  have spos: "0 < sqrt d" if "d \<noteq> 0"
    using dpos [OF that] by (simp only: real_sqrt_gt_zero)
  have A: "d = 0 \<longrightarrow>
            enemyStep rnd c (Some p) e = (Some ?dec, None, c)
            \<and> enemyBullets (enemyMovementAndShooting rnd c0 g5) =
                enemyBullets g5 @ snd (enemyLoop rnd c0 (Some p) pre)
                  @ snd (enemyLoop rnd c (Some p) post)
            \<and> enemies (enemyMovementAndShooting rnd c0 g5) =
                fst (enemyLoop rnd c0 (Some p) pre) @ ?dec # fst (enemyLoop rnd c (Some p) post)"
  proof
    assume z: "d = 0"
    show "enemyStep rnd c (Some p) e = (Some ?dec, None, c)
            \<and> enemyBullets (enemyMovementAndShooting rnd c0 g5) =
                enemyBullets g5 @ snd (enemyLoop rnd c0 (Some p) pre)
                  @ snd (enemyLoop rnd c (Some p) post)
            \<and> enemies (enemyMovementAndShooting rnd c0 g5) =
                fst (enemyLoop rnd c0 (Some p) pre) @ ?dec # fst (enemyLoop rnd c (Some p) post)"
      by (simp only: bullets enemies loop zero [OF z]) simp
  qed
  have B1: "enemyBullets (enemyMovementAndShooting rnd c0 g5) =
                enemyBullets g5 @ snd (enemyLoop rnd c0 (Some p) pre)
                  @ eb # snd (enemyLoop rnd (c + 1) (Some p) post)" if "d \<noteq> 0"
    by (simp only: bullets loop fire [OF that]) simp
  have B2: "enemies (enemyMovementAndShooting rnd c0 g5) =
                fst (enemyLoop rnd c0 (Some p) pre) @ ?fire
                  # fst (enemyLoop rnd (c + 1) (Some p) post)" if "d \<noteq> 0"
    by (simp only: enemies loop fire [OF that]) simp
  have ax: "\<bar>EnemyBullet.SpeedX eb - dx / sqrt d * 5\<bar> \<le> 2 powr (- 51) * \<bar>dx / sqrt d * 5\<bar>"
    if "d \<noteq> 0"
    using aim_accuracy [OF spos [OF that], of dx] by (simp add: eb_def)
  have ay: "\<bar>EnemyBullet.SpeedY eb - dy / sqrt d * 5\<bar> \<le> 2 powr (- 51) * \<bar>dy / sqrt d * 5\<bar>"
    if "d \<noteq> 0"
    using aim_accuracy [OF spos [OF that], of dy] by (simp add: eb_def)
  have norm: "(dx / sqrt d * 5)\<^sup>2 + (dy / sqrt d * 5)\<^sup>2 = 25" if "d \<noteq> 0"
    using that unfolding d_def by (rule aim_speed)
  have B: "d \<noteq> 0 \<longrightarrow>
            0 < float64 (sqrt d)
            \<and> enemyStep rnd c (Some p) e = (Some ?fire, Some eb, c + 1)
            \<and> enemyBullets (enemyMovementAndShooting rnd c0 g5) =
                enemyBullets g5 @ snd (enemyLoop rnd c0 (Some p) pre)
                  @ eb # snd (enemyLoop rnd (c + 1) (Some p) post)
            \<and> enemies (enemyMovementAndShooting rnd c0 g5) =
                fst (enemyLoop rnd c0 (Some p) pre) @ ?fire
                  # fst (enemyLoop rnd (c + 1) (Some p) post)
            \<and> \<bar>EnemyBullet.SpeedX eb - dx / sqrt d * 5\<bar> \<le> 2 powr (- 51) * \<bar>dx / sqrt d * 5\<bar>
            \<and> \<bar>EnemyBullet.SpeedY eb - dy / sqrt d * 5\<bar> \<le> 2 powr (- 51) * \<bar>dy / sqrt d * 5\<bar>
            \<and> (dx / sqrt d * 5)\<^sup>2 + (dy / sqrt d * 5)\<^sup>2 = 25
            \<and> 60 \<le> 60 + Intn rnd c 60 \<and> 60 + Intn rnd c 60 < 120"
    using float64_pos [OF spos] fire B1 B2 ax ay norm Intn_range [of 60 rnd c]
    by (intro impI conjI) simp_all
  have C: "enemyBullets (simulate inp g) =
           filter enemyBulletOnScreen (map moveEnemyBullet
             (enemyBullets (enemyMovementAndShooting rnd c0 g5)))"
    unfolding rnd_def c0_def g5_def by (rule enemyBullets_simulate)
  have D: "enemies (beforeCollision inp g) = enemies (enemyMovementAndShooting rnd c0 g5)"
    unfolding rnd_def c0_def g5_def
    by (simp only: beforeCollision_beforeEnemies enemies_phase)
  show ?thesis
    using A B C D beforeEnemies_frame [where inp = inp and g = g]
    unfolding g5_def by (intro conjI)
qed

lemma aimGame_before:
  "player (fst (beforeEnemies idleInput aimGame)) = Some \<lparr>Player.X = 320, Y = 240, Size = 32\<rparr>"
  "enemies (fst (beforeEnemies idleInput aimGame)) = [] @ aimedEnemy # []"
  "enemyBullets (fst (beforeEnemies idleInput aimGame)) = []"
  "snd (beforeEnemies idleInput aimGame) = 0"
  by (simp_all add: beforeEnemies_def aimGame_def annWorld_eq idleInput_def eval_defs)

lemma centredGame_before:
  "player (fst (beforeEnemies idleInput centredGame)) = Some \<lparr>Player.X = 320, Y = 240, Size = 32\<rparr>"
  "enemies (fst (beforeEnemies idleInput centredGame)) = [] @ centredEnemy # []"
  "enemyBullets (fst (beforeEnemies idleInput centredGame)) = []"
  "snd (beforeEnemies idleInput centredGame) = 0"
  by (simp_all add: beforeEnemies_def centredGame_def annWorld_eq idleInput_def eval_defs)

theorem enemy_fires_when_cooldown_elapsed_witness:
  "player (fst (beforeEnemies idleInput aimGame)) = Some \<lparr>Player.X = 320, Y = 240, Size = 32\<rparr>
   \<and> enemies (fst (beforeEnemies idleInput aimGame)) = [] @ aimedEnemy # []
   \<and> \<not> Enemy.Y aimedEnemy + Enemy.SpeedY aimedEnemy + Enemy.Size aimedEnemy < 0
   \<and> wrap64 (Cooldown aimedEnemy - 1) \<le> 0
   \<and> enemyBullets (enemyMovementAndShooting (randSource idleInput) 0
         (fst (beforeEnemies idleInput aimGame))) =
       [\<lparr>EnemyBullet.X = 313, Y = 205,
         SpeedX = 8660768514174031 / 4503599627370496,
         SpeedY = 5196461108504419 / 1125899906842624, Size = 6\<rparr>]
   \<and> enemies (beforeCollision idleInput aimGame) =
       [\<lparr>Enemy.X = 300, Y = 192, Size = 32, SpeedY = - 2, Cooldown = 60, Dead = False\<rparr>]
   \<and> enemyBullets (simulate idleInput aimGame) =
       [\<lparr>EnemyBullet.X = 1385046339727675 / 4398046511104,
         Y = 7375185687851323 / 35184372088832,
         SpeedX = 8660768514174031 / 4503599627370496,
         SpeedY = 5196461108504419 / 1125899906842624, Size = 6\<rparr>]
   \<and> player (fst (beforeEnemies idleInput centredGame)) = Some \<lparr>Player.X = 320, Y = 240, Size = 32\<rparr>
   \<and> enemies (fst (beforeEnemies idleInput centredGame)) = [] @ centredEnemy # []
   \<and> \<not> Enemy.Y centredEnemy + Enemy.SpeedY centredEnemy + Enemy.Size centredEnemy < 0
   \<and> wrap64 (Cooldown centredEnemy - 1) \<le> 0
   \<and> enemies (beforeCollision idleInput centredGame) =
       [\<lparr>Enemy.X = 320, Y = 240, Size = 32, SpeedY = - 2, Cooldown = 0, Dead = False\<rparr>]
   \<and> enemyBullets (simulate idleInput centredGame) = []"
proof -
  have on1: "\<not> Enemy.Y aimedEnemy + Enemy.SpeedY aimedEnemy + Enemy.Size aimedEnemy < 0"
    by (simp add: aimedEnemy_def)
  have el1: "wrap64 (Cooldown aimedEnemy - 1) \<le> 0"
    by (simp add: aimedEnemy_def wrap64_def)
  have on2: "\<not> Enemy.Y centredEnemy + Enemy.SpeedY centredEnemy + Enemy.Size centredEnemy < 0"
    by (simp add: centredEnemy_def)
  have el2: "wrap64 (Cooldown centredEnemy - 1) \<le> 0"
    by (simp add: centredEnemy_def wrap64_def)
  note fire = enemy_fires_when_cooldown_elapsed
      [OF aimGame_before(1) aimGame_before(2) on1 el1]
  note skip = enemy_fires_when_cooldown_elapsed
      [OF centredGame_before(1) centredGame_before(2) on2 el2]
  have a: "enemyBullets (enemyMovementAndShooting (randSource idleInput) 0
         (fst (beforeEnemies idleInput aimGame))) =
       [\<lparr>EnemyBullet.X = 313, Y = 205,
         SpeedX = 8660768514174031 / 4503599627370496,
         SpeedY = 5196461108504419 / 1125899906842624, Size = 6\<rparr>]"
    using fire
    by (simp add: aimGame_before(3,4) aimedEnemy_def sqrt_2704 float64_52 aim_vx aim_vy)
  have b: "enemies (beforeCollision idleInput aimGame) =
       [\<lparr>Enemy.X = 300, Y = 192, Size = 32, SpeedY = - 2, Cooldown = 60, Dead = False\<rparr>]"
    using fire
    by (simp add: aimGame_before(3,4) aimedEnemy_def sqrt_2704 float64_52 aim_vx aim_vy
        Intn_def idleInput_def)
  have c: "enemyBullets (simulate idleInput aimGame) =
       [\<lparr>EnemyBullet.X = 1385046339727675 / 4398046511104,
         Y = 7375185687851323 / 35184372088832,
         SpeedX = 8660768514174031 / 4503599627370496,
         SpeedY = 5196461108504419 / 1125899906842624, Size = 6\<rparr>]"
    using fire [THEN conjunct2, THEN conjunct2, THEN conjunct1]
    by (simp add: aimGame_before(4) a moveEnemyBullet_def enemyBulletOnScreen_def
        screenWidth_def screenHeight_def move_x move_y float64_pos_iff)
  have d: "enemies (beforeCollision idleInput centredGame) =
       [\<lparr>Enemy.X = 320, Y = 240, Size = 32, SpeedY = - 2, Cooldown = 0, Dead = False\<rparr>]"
    using skip
    by (simp add: centredGame_before(3,4) centredEnemy_def wrap64_def)
  have e: "enemyBullets (simulate idleInput centredGame) = []"
    using skip
    by (simp add: centredGame_before(3,4) centredEnemy_def wrap64_def)
  show ?thesis
    using aimGame_before(1,2) on1 el1 a b c centredGame_before(1,2) on2 el2 d e
    by (intro conjI)
qed

subsection \<open>The difficulty ramp\<close>

lemma ramp_playerMovement:
  "spawnInterval (playerMovement inp g) = spawnInterval g"
  "elapsedFrames (playerMovement inp g) = elapsedFrames g"
  by (simp_all add: playerMovement_def split: option.splits)

lemma ramp_shooting:
  "spawnInterval (shooting inp g) = spawnInterval g"
  "elapsedFrames (shooting inp g) = elapsedFrames g"
  by (simp_all add: shooting_def split: option.splits)

lemma ramp_decreaseSpawnInterval:
  "spawnInterval (decreaseSpawnInterval g) =
     (if elapsedFrames g smod 120 = 0 \<and> spawnInterval g > 10
      then max 10 (spawnInterval g - 5) else spawnInterval g)"
  "elapsedFrames (decreaseSpawnInterval g) = elapsedFrames g"
  by (simp_all add: decreaseSpawnInterval_def Let_def)

lemma ramp_enemySpawning:
  "spawnInterval (fst (enemySpawning rnd g)) = spawnInterval g"
  "elapsedFrames (fst (enemySpawning rnd g)) = elapsedFrames g"
  by (simp_all add: enemySpawning_def Let_def)

lemma ramp_enemyMovementAndShooting:
  "spawnInterval (enemyMovementAndShooting rnd c g) = spawnInterval g"
  "elapsedFrames (enemyMovementAndShooting rnd c g) = elapsedFrames g"
  by (simp_all add: enemyMovementAndShooting_def split: prod.splits)

lemma ramp_enemyBulletsMovement:
  "spawnInterval (enemyBulletsMovement g) = spawnInterval g"
  "elapsedFrames (enemyBulletsMovement g) = elapsedFrames g"
  by (simp_all add: enemyBulletsMovement_def)

lemma ramp_playerBulletsMovement:
  "spawnInterval (playerBulletsMovement g) = spawnInterval g"
  "elapsedFrames (playerBulletsMovement g) = elapsedFrames g"
  by (simp_all add: playerBulletsMovement_def)

lemma ramp_bulletVsEnemyCollision:
  "spawnInterval (bulletVsEnemyCollision g) = spawnInterval g"
  "elapsedFrames (bulletVsEnemyCollision g) = elapsedFrames g"
  by (simp_all add: bulletVsEnemyCollision_def split: prod.splits)

lemmas ramp_phase = ramp_playerMovement ramp_shooting ramp_decreaseSpawnInterval
  ramp_enemySpawning ramp_enemyMovementAndShooting ramp_enemyBulletsMovement
  ramp_playerBulletsMovement ramp_bulletVsEnemyCollision

lemma ramp_simulate:
  "elapsedFrames (simulate inp g) = wrap64 (elapsedFrames g + 1)"
  "spawnInterval (simulate inp g) =
     (if wrap64 (elapsedFrames g + 1) smod 120 = 0 \<and> spawnInterval g > 10
      then max 10 (spawnInterval g - 5) else spawnInterval g)"
  by (simp_all add: simulate_def beforeCollision_def Let_def ramp_phase)

lemma ramp_playerDeath:
  assumes "playerDeath inp w = Inr w'"
  shows "spawnInterval (game w') = spawnInterval (game w)
       \<and> elapsedFrames (game w') = elapsedFrames (game w)"
  using assms
  by (auto simp add: playerDeath_def saveScores_def Let_def split: if_splits option.splits)

lemma ramp_playerCollisions:
  assumes "playerCollisions inp w = Inr w'"
  shows "spawnInterval (game w') = spawnInterval (game w)
       \<and> elapsedFrames (game w') = elapsedFrames (game w)"
  using assms
  by (auto simp add: playerCollisions_def Let_def split: option.splits if_splits
      dest!: ramp_playerDeath)

lemma ramp_playingUpdate:
  assumes "playingUpdate inp w = Inr w'"
  shows "elapsedFrames (game w') = wrap64 (elapsedFrames (game w) + 1)"
    and "spawnInterval (game w') =
     (if wrap64 (elapsedFrames (game w) + 1) smod 120 = 0 \<and> spawnInterval (game w) > 10
      then max 10 (spawnInterval (game w) - 5) else spawnInterval (game w))"
  using assms
  by (auto simp add: playingUpdate_def Let_def ramp_simulate split: sum.splits
      dest!: ramp_playerCollisions)

lemma scores_playerCollisions_nonnil:
  assumes "HighScores (scores w) \<noteq> None"
  shows "\<exists>w'. playerCollisions inp w = Inr w' \<and> HighScores (scores w') \<noteq> None"
proof (cases "player (game w)")
  case None
  then show ?thesis using assms by (simp add: playerCollisions_def)
next
  case (Some p)
  let ?w1 = "w\<lparr>game := (game w)\<lparr>enemyBullets :=
       filter (\<lambda>eb. \<not> ebHitsPlayer p eb) (enemyBullets (game w))\<rparr>\<rparr>"
  have nn: "HighScores (scores ?w1) \<noteq> None" using assms by simp
  obtain w' where d: "playerDeath inp ?w1 = Inr w'"
    using playerDeath_returns [OF nn] by blast
  have "HighScores (scores w') \<noteq> None"
    using playerDeath_nonnil [OF d nn] .
  then show ?thesis
    using Some d nn by (auto simp add: playerCollisions_def Let_def)
qed

lemma Move_returns: "bgImageOK inp \<Longrightarrow> \<exists>vp. Move (bgImageH inp) v = Inr vp"
  by (auto simp add: bgImageOK_def Move_def Let_def split: option.splits)

lemma playingUpdate_returns:
  assumes "HighScores (scores w) \<noteq> None" and "bgImageOK inp"
  shows "\<exists>w'. playingUpdate inp w = Inr w' \<and> HighScores (scores w') \<noteq> None"
proof -
  obtain vp where m: "Move (bgImageH inp) (viewport (game w)) = Inr vp"
    using Move_returns [OF assms(2)] by blast
  let ?w1 = "w\<lparr>game := simulate inp ((game w)\<lparr>keys := pressedKeys inp, viewport := vp\<rparr>)\<rparr>"
  have "HighScores (scores ?w1) \<noteq> None" using assms(1) by simp
  from scores_playerCollisions_nonnil [OF this, of inp] show ?thesis
    by (simp add: playingUpdate_nested m)
qed

lemma runTicks_returns:
  assumes "HighScores (scores w) \<noteq> None" and "\<forall>inp\<in>set inps. bgImageOK inp"
  shows "\<exists>w'. runTicks inps w = Inr w' \<and> HighScores (scores w') \<noteq> None"
  using assms
proof (induction inps arbitrary: w)
  case Nil
  then show ?case by simp
next
  case (Cons inp inps)
  obtain w1 where w1: "playingUpdate inp w = Inr w1" "HighScores (scores w1) \<noteq> None"
    using playingUpdate_returns [of w inp] Cons.prems by auto
  from Cons.IH [OF w1(2)] Cons.prems(2) w1(1) show ?case by simp
qed


lemma smod_120_nonneg: "0 \<le> k \<Longrightarrow> k smod 120 = k mod 120" for k :: int
  by (simp add: signed_modulo_int_def sgn_if)

lemma smod_120_Suc: "(int n + 1) smod 120 = int (Suc n mod 120)"
proof -
  have "(int n + 1) smod 120 = (int n + 1) mod 120"
    by (rule smod_120_nonneg) simp
  also have "\<dots> = int (Suc n) mod int 120" by (simp add: add.commute)
  also have "\<dots> = int (Suc n mod 120)" by (simp only: zmod_int)
  finally show ?thesis .
qed

lemma wrap64_Suc: "n < 1920 \<Longrightarrow> wrap64 (int n + 1) = int n + 1"
  by (rule wrap64_id) simp_all

lemma ramp_closed_form_step:
  "(if Suc n mod 120 = 0 \<and> 10 < max 10 (90 - 5 * int (n div 120))
    then max 10 (max 10 (90 - 5 * int (n div 120)) - 5)
    else max 10 (90 - 5 * int (n div 120)))
   = max 10 (90 - 5 * int (Suc n div 120))"
proof -
  have d: "Suc n div 120 = n div 120 + (if Suc n mod 120 = 0 then 1 else 0)"
    by (simp add: div_Suc)
  show ?thesis
    by (simp only: d) (simp add: max_def)
qed

lemma ramp_tick_interval:
  assumes tick: "playingUpdate inp w = Inr w'"
    and si: "spawnInterval (game w) = max 10 (90 - 5 * int (n div 120))"
    and ef: "n < 1920 \<longrightarrow> elapsedFrames (game w) = int n"
  shows "spawnInterval (game w') = max 10 (90 - 5 * int (Suc n div 120))"
proof (cases "n < 1920")
  case True
  then have e: "elapsedFrames (game w) = int n" using ef by simp
  have "spawnInterval (game w') =
     (if Suc n mod 120 = 0 \<and> 10 < max 10 (90 - 5 * int (n div 120))
      then max 10 (max 10 (90 - 5 * int (n div 120)) - 5)
      else max 10 (90 - 5 * int (n div 120)))"
    using ramp_playingUpdate(2) [OF tick]
    by (simp only: e si wrap64_Suc [OF True] smod_120_Suc of_nat_eq_0_iff)
  then show ?thesis by (simp only: ramp_closed_form_step)
next
  case False
  then have "16 \<le> n div 120" "16 \<le> Suc n div 120" by simp_all
  then have "spawnInterval (game w) = 10" "max 10 (90 - 5 * int (Suc n div 120)) = 10"
    using si by simp_all
  then show ?thesis using ramp_playingUpdate(2) [OF tick] by simp
qed

lemma ramp_tick_elapsed:
  assumes tick: "playingUpdate inp w = Inr w'"
    and ef: "n < 1920 \<longrightarrow> elapsedFrames (game w) = int n"
  shows "Suc n < 1920 \<longrightarrow> elapsedFrames (game w') = int (Suc n)"
proof
  assume s: "Suc n < 1920"
  then have n: "n < 1920" by simp
  then have e: "elapsedFrames (game w) = int n" using ef by simp
  show "elapsedFrames (game w') = int (Suc n)"
    using ramp_playingUpdate(1) [OF tick] by (simp add: e wrap64_Suc [OF n])
qed


lemma ramp_tick_as_claimed:
  assumes tick: "playingUpdate inp w = Inr w'"
    and si: "spawnInterval (game w) = max 10 (90 - 5 * int (n div 120))"
    and ef: "n < 1920 \<longrightarrow> elapsedFrames (game w) = int n"
  shows "spawnInterval (game w') =
      (if 0 < elapsedFrames (game w') \<and> elapsedFrames (game w') mod 120 = 0
          \<and> 10 < spawnInterval (game w)
       then spawnInterval (game w) - 5 else spawnInterval (game w))"
proof (cases "n < 1920")
  case True
  then have e: "elapsedFrames (game w) = int n" using ef by simp
  have e': "elapsedFrames (game w') = int n + 1"
    using ramp_playingUpdate(1) [OF tick] by (simp add: e wrap64_Suc [OF True])
  have m: "(int n + 1) smod 120 = (int n + 1) mod 120"
    by (rule smod_120_nonneg) simp
  have "n div 120 < 16" using True by simp
  then have big: "15 \<le> spawnInterval (game w)"
    using si by simp
  then have mx: "max 10 (spawnInterval (game w) - 5) = spawnInterval (game w) - 5"
    by simp
  have "spawnInterval (game w') =
     (if (int n + 1) mod 120 = 0 \<and> 10 < spawnInterval (game w)
      then spawnInterval (game w) - 5 else spawnInterval (game w))"
    using ramp_playingUpdate(2) [OF tick] by (simp only: e wrap64_Suc [OF True] m mx)
  then show ?thesis by (simp add: e')
next
  case False
  then have "16 \<le> n div 120" by simp
  then have "spawnInterval (game w) = 10" using si by simp
  then show ?thesis using ramp_playingUpdate(2) [OF tick] by simp
qed

lemma ramp_run_invariant:
  assumes "runTicks inps w = Inr w'"
    and "spawnInterval (game w) = max 10 (90 - 5 * int (n div 120))"
    and "n < 1920 \<longrightarrow> elapsedFrames (game w) = int n"
  shows "spawnInterval (game w') = max 10 (90 - 5 * int ((n + length inps) div 120))
       \<and> (n + length inps < 1920 \<longrightarrow> elapsedFrames (game w') = int (n + length inps))"
  using assms
proof (induction inps arbitrary: w n)
  case Nil
  then show ?case by simp
next
  case (Cons inp inps)
  from Cons.prems(1) obtain w1 where
    t: "playingUpdate inp w = Inr w1" and r: "runTicks inps w1 = Inr w'"
    by (auto split: sum.splits)
  from Cons.IH [OF r ramp_tick_interval [OF t Cons.prems(2,3)] ramp_tick_elapsed [OF t Cons.prems(3)]]
  show ?case by simp
qed

text \<open>
  C4. Start from a session reset (interval 90, elapsed ticks 0) and run any number of
  playing ticks, on any inputs (with a table that is not \<^verbatim>\<open>nil\<close> and a usable
  background image, so that no tick panics). All ticks return, and after \<open>n\<close> ticks
  the interval is \<open>max 10 (90 - 5 * (n div 120))\<close>: never below 10, and 80 after 240
  ticks. On every further tick the interval decreases by exactly 5 when the elapsed
  counter after the tick is a positive multiple of 120 and the interval is above 10,
  and is unchanged otherwise; so it never increases.
\<close>

theorem spawn_interval_ramp:
  assumes "HighScores (scores w) \<noteq> None" and "\<forall>inp\<in>set inps. bgImageOK inp"
  shows "\<exists>w'. runTicks inps (Reset w) = Inr w'
     \<and> spawnInterval (game w') = max 10 (90 - 5 * int (length inps div 120))
     \<and> 10 \<le> spawnInterval (game w')
     \<and> (length inps = 240 \<longrightarrow> spawnInterval (game w') = 80)
     \<and> (\<forall>inp. bgImageOK inp \<longrightarrow>
          (\<exists>w''. playingUpdate inp w' = Inr w''
             \<and> spawnInterval (game w'') =
                 (if 0 < elapsedFrames (game w'') \<and> elapsedFrames (game w'') mod 120 = 0
                     \<and> 10 < spawnInterval (game w')
                  then spawnInterval (game w') - 5 else spawnInterval (game w'))
             \<and> spawnInterval (game w'') \<le> spawnInterval (game w')))"
proof -
  have nn: "HighScores (scores (Reset w)) \<noteq> None"
    using assms(1) by (simp add: Reset_def)
  obtain w' where run: "runTicks inps (Reset w) = Inr w'"
    and nn': "HighScores (scores w') \<noteq> None"
    using runTicks_returns [OF nn assms(2)] by blast
  have si0: "spawnInterval (game (Reset w)) = max 10 (90 - 5 * int (0 div 120))"
    by (simp add: Reset_def)
  have ef0: "0 < (1920::nat) \<longrightarrow> elapsedFrames (game (Reset w)) = int 0"
    by (simp add: Reset_def)
  have inv: "spawnInterval (game w') = max 10 (90 - 5 * int (length inps div 120))"
    "length inps < 1920 \<longrightarrow> elapsedFrames (game w') = int (length inps)"
    using ramp_run_invariant [OF run si0 ef0] by simp_all
  have next_tick: "\<exists>w''. playingUpdate inp w' = Inr w''
             \<and> spawnInterval (game w'') =
                 (if 0 < elapsedFrames (game w'') \<and> elapsedFrames (game w'') mod 120 = 0
                     \<and> 10 < spawnInterval (game w')
                  then spawnInterval (game w') - 5 else spawnInterval (game w'))
             \<and> spawnInterval (game w'') \<le> spawnInterval (game w')"
    if ok: "bgImageOK inp" for inp
  proof -
    obtain w'' where t: "playingUpdate inp w' = Inr w''"
      using playingUpdate_returns [OF nn' ok] by blast
    have c: "spawnInterval (game w'') =
                 (if 0 < elapsedFrames (game w'') \<and> elapsedFrames (game w'') mod 120 = 0
                     \<and> 10 < spawnInterval (game w')
                  then spawnInterval (game w') - 5 else spawnInterval (game w'))"
      using ramp_tick_as_claimed [OF t inv] .
    then have "spawnInterval (game w'') \<le> spawnInterval (game w')"
      by (simp split: if_splits)
    with t c show ?thesis by blast
  qed
  have "10 \<le> spawnInterval (game w')" using inv(1) by simp
  moreover have "length inps = 240 \<longrightarrow> spawnInterval (game w') = 80"
    using inv(1) by simp
  ultimately show ?thesis
    using run inv(1) next_tick by blast
qed

theorem spawn_interval_ramp_witness:
  "HighScores (scores annWorld) \<noteq> None
   \<and> bgImageOK idleInput
   \<and> length (replicate 240 idleInput) = 240
   \<and> (\<exists>w'. runTicks (replicate 240 idleInput) (Reset annWorld) = Inr w'
         \<and> spawnInterval (game w') = 80
         \<and> (\<exists>w''. playingUpdate idleInput w' = Inr w''
                \<and> spawnInterval (game w'') \<le> spawnInterval (game w')))
   \<and> (\<exists>w'. runTicks [idleInput] (Reset annWorld) = Inr w' \<and> spawnInterval (game w') = 90)"
proof -
  have nn: "HighScores (scores annWorld) \<noteq> None"
    by (simp add: annWorld_eq)
  have ok: "bgImageOK idleInput"
    by (simp add: bgImageOK_def idleInput_def wrap64_def)
  have long: "\<exists>w'. runTicks (replicate 240 idleInput) (Reset annWorld) = Inr w'
         \<and> spawnInterval (game w') = 80
         \<and> (\<exists>w''. playingUpdate idleInput w' = Inr w''
                \<and> spawnInterval (game w'') \<le> spawnInterval (game w'))"
    using spawn_interval_ramp [of annWorld "replicate 240 idleInput"] nn ok
    by (simp only: set_replicate_conv_if length_replicate) fastforce
  have short: "\<exists>w'. runTicks [idleInput] (Reset annWorld) = Inr w' \<and> spawnInterval (game w') = 90"
    using spawn_interval_ramp [of annWorld "[idleInput]"] nn ok by auto
  show ?thesis
    using nn ok long short by simp
qed

subsection \<open>Player bullets\<close>

lemma smod_120_small: "0 < k \<Longrightarrow> k < 120 \<Longrightarrow> k smod 120 \<noteq> 0" for k :: int
  by (simp add: signed_modulo_int_def sgn_if)

lemma click_tick: "playingUpdate clickInput annWorld = Inr (flightWorld 1 280)"
  by (simp add: flightWorld_def annWorld_eq clickInput_def idleInput_def playingUpdate_nested
      playerCollisions_def eval_defs)

lemma idle_flight_tick:
  assumes "0 \<le> k" and "k < 89" and "0 < y"
  shows "playingUpdate idleInput (flightWorld k y) = Inr (flightWorld (k + 1) (y + 8))"
proof -
  have w: "wrap64 (k + 1) = k + 1"
    using assms by (intro wrap64_id) simp_all
  have m: "(k + 1) smod 120 \<noteq> 0"
    using assms by (intro smod_120_small) simp_all
  have v: "wrap64 0 smod 256 = 0" "wrap64 256 = 256"
    by (simp_all add: wrap64_def signed_modulo_int_def)
  show ?thesis
    using assms w m v
    by (simp add: flightWorld_def annWorld_eq idleInput_def playingUpdate_nested
      playerCollisions_def simulate_nested Move_def playerMovement_def movePlayer_def shooting_def
      decreaseSpawnInterval_def enemySpawning_def enemyMovementAndShooting_def
      enemyBulletsMovement_def playerBulletsMovement_def bulletVsEnemyCollision_def
      moveBullet_def screenWidth_def screenHeight_def Let_def signed_divide_int_def)
qed


lemma idle_flight_run:
  assumes "0 \<le> k" and "k + int n < 90" and "0 < y"
  shows "runTicks (replicate n idleInput) (flightWorld k y)
     = Inr (flightWorld (k + int n) (y + 8 * real n))"
  using assms
proof (induction n arbitrary: k y)
  case 0
  then show ?case by simp
next
  case (Suc n)
  have t: "playingUpdate idleInput (flightWorld k y) = Inr (flightWorld (k + 1) (y + 8))"
    using Suc.prems by (intro idle_flight_tick) simp_all
  have "runTicks (replicate n idleInput) (flightWorld (k + 1) (y + 8))
     = Inr (flightWorld (k + 1 + int n) (y + 8 + 8 * real n))"
    using Suc.prems by (intro Suc.IH) simp_all
  then show ?case
    by (simp add: t algebra_simps)
qed

text \<open>
  C1. The movement pass of the player bullets keeps a bullet iff \<^verbatim>\<open>b.Y+b.Size > 0\<close>,
  a test of the top edge only, and the bullets the game fires have \<open>SpeedY = 8\<close>, away
  from that edge: they are not removed at the tick the claim gives, nor when they leave
  the arena. The player at (320, 240) fires on the first tick of a session and the
  bullet starts at y = 272; \<open>ceil ((272 + 6) / 8) = 35\<close>. After 35 ticks, and after 36,
  the bullet is still in \<^verbatim>\<open>g.bullets\<close>, at y = 552 and 560, below the bottom edge of
  the arena (480), with no enemy on the screen. The test of the enemy bullets pass
  (all four edges) is false at that position.
\<close>

theorem fired_bullet_not_removed:
  "player (game annWorld) = Some \<lparr>Player.X = 320, Y = 240, Size = 32\<rparr>
   \<and> newBullet \<lparr>Player.X = 320, Y = 240, Size = 32\<rparr>
       = \<lparr>Bullet.X = 333, Y = 272, SpeedY = 8, Size = 6\<rparr>
   \<and> nat \<lceil>(272 + 6) / (8 :: real)\<rceil> = 35
   \<and> runTicks [clickInput] annWorld = Inr (flightWorld 1 280)
   \<and> runTicks (clickInput # replicate 34 idleInput) annWorld = Inr (flightWorld 35 552)
   \<and> runTicks (clickInput # replicate 35 idleInput) annWorld = Inr (flightWorld 36 560)
   \<and> bullets (game (flightWorld 35 552)) = [\<lparr>Bullet.X = 333, Y = 552, SpeedY = 8, Size = 6\<rparr>]
   \<and> bullets (game (flightWorld 36 560)) = [\<lparr>Bullet.X = 333, Y = 560, SpeedY = 8, Size = 6\<rparr>]
   \<and> enemies (game (flightWorld 35 552)) = []
   \<and> enemies (game (flightWorld 36 560)) = []
   \<and> real_of_int screenHeight < 552
   \<and> \<not> enemyBulletOnScreen
         \<lparr>EnemyBullet.X = 333, Y = 552, SpeedX = 0, SpeedY = 8, Size = 6\<rparr>"
proof -
  have a: "runTicks (replicate 34 idleInput) (flightWorld 1 280) = Inr (flightWorld 35 552)"
    using idle_flight_run [of 1 34 280] by simp
  have b: "runTicks (replicate 35 idleInput) (flightWorld 1 280) = Inr (flightWorld 36 560)"
    using idle_flight_run [of 1 35 280] by simp
  have c: "nat \<lceil>(272 + 6) / (8 :: real)\<rceil> = 35"
    by simp
  show ?thesis
    using a b c
    by (simp add: click_tick)
       (simp add: flightWorld_def annWorld_eq newBullet_def enemyBulletOnScreen_def
          screenHeight_def)
qed

subsection \<open>Loading the scores\<close>

text \<open>
  C8, as amended. \<open>loadScores\<close> always returns (it has no fatal branch: the error of
  \<^verbatim>\<open>os.Open\<close> ends it, the error of \<^verbatim>\<open>Decode\<close> is dropped) and changes nothing but the
  table. Without a file that can be opened the table is the empty map. With a file, the
  table is what \<^verbatim>\<open>Decode\<close> leaves in a target that starts as the empty map, whether
  \<^verbatim>\<open>Decode\<close> returns an error or not: two decoders that leave the same targets give
  the same table. So the table is empty when \<^verbatim>\<open>Decode\<close> fails before it stores
  anything, and it is populated from a file that \<^verbatim>\<open>Decode\<close> accepts.
\<close>

theorem loadScores_ignores_failures:
  "(scoreFile w = None \<longrightarrow>
      loadScores dec w = w\<lparr>scores := \<lparr>HighScores = Some Map.empty\<rparr>\<rparr>)
   \<and> (scoreFile w = Some content \<longrightarrow>
      loadScores dec w = w\<lparr>scores := snd (dec content \<lparr>HighScores = Some Map.empty\<rparr>)\<rparr>)
   \<and> ((\<forall>c sd. snd (dec c sd) = snd (dec' c sd)) \<longrightarrow> loadScores dec w = loadScores dec' w)
   \<and> game (loadScores dec w) = game w
   \<and> scoreFile (loadScores dec w) = scoreFile w"
  by (cases "scores w") (auto simp add: loadScores_def Let_def split: option.splits)

theorem loadScores_ignores_failures_witness:
  "mainStart exampleDecode None
       = \<lparr>game = initialGame, scores = \<lparr>HighScores = Some Map.empty\<rparr>, scoreFile = None\<rparr>
   \<and> exampleDecode [] \<lparr>HighScores = Some Map.empty\<rparr> = (True, \<lparr>HighScores = Some Map.empty\<rparr>)
   \<and> mainStart exampleDecode (Some [])
       = \<lparr>game = initialGame, scores = \<lparr>HighScores = Some Map.empty\<rparr>, scoreFile = Some []\<rparr>
   \<and> exampleDecode ''{{{'' \<lparr>HighScores = Some Map.empty\<rparr> = (True, \<lparr>HighScores = Some Map.empty\<rparr>)
   \<and> mainStart exampleDecode (Some ''{{{'')
       = \<lparr>game = initialGame, scores = \<lparr>HighScores = Some Map.empty\<rparr>, scoreFile = Some ''{{{''\<rparr>
   \<and> exampleDecode annFile \<lparr>HighScores = Some Map.empty\<rparr>
       = (False, \<lparr>HighScores = Some [''Ann'' \<mapsto> 50]\<rparr>)
   \<and> mainStart exampleDecode (Some annFile)
       = \<lparr>game = initialGame, scores = \<lparr>HighScores = Some [''Ann'' \<mapsto> 50]\<rparr>,
          scoreFile = Some annFile\<rparr>
   \<and> (\<forall>c sd. snd (exampleDecode c sd) = snd (False, snd (exampleDecode c sd)))
   \<and> mainStart exampleDecode (Some mismatchFile)
       = mainStart (\<lambda>c sd. (False, snd (exampleDecode c sd))) (Some mismatchFile)"
proof -
  let ?w = "\<lambda>f. \<lparr>game = initialGame, scores = \<lparr>HighScores = None\<rparr>, scoreFile = f\<rparr>"
  note a = loadScores_ignores_failures [of "?w None" exampleDecode "[]" exampleDecode]
  note b = loadScores_ignores_failures [of "?w (Some [])" exampleDecode "[]" exampleDecode]
  note c = loadScores_ignores_failures [of "?w (Some ''{{{'')" exampleDecode "''{{{''" exampleDecode]
  note d = loadScores_ignores_failures [of "?w (Some annFile)" exampleDecode annFile exampleDecode]
  note e = loadScores_ignores_failures [of "?w (Some mismatchFile)" exampleDecode mismatchFile
      "\<lambda>c sd. (False, snd (exampleDecode c sd))"]
  show ?thesis
    using a b c d e by (simp add: mainStart_def loadScores_def exampleDecode_eval)
qed

text \<open>
  C8 as stated fails on malformed content that \<^verbatim>\<open>Decode\<close> rejects after it has stored
  entries: on \<^verbatim>\<open>{"high_scores":{"Ann":50,"Bob":"x","Cy":7}}\<close> it returns an error, and
  the table is left with Ann: 50, Bob: 0, Cy: 7, not empty.
\<close>

theorem loadScores_mismatch_counterexample:
  "exampleDecode mismatchFile \<lparr>HighScores = Some Map.empty\<rparr>
       = (True, \<lparr>HighScores = Some [''Ann'' \<mapsto> 50, ''Bob'' \<mapsto> 0, ''Cy'' \<mapsto> 7]\<rparr>)
   \<and> scores (mainStart exampleDecode (Some mismatchFile))
       = \<lparr>HighScores = Some [''Ann'' \<mapsto> 50, ''Bob'' \<mapsto> 0, ''Cy'' \<mapsto> 7]\<rparr>
   \<and> scores (mainStart exampleDecode (Some mismatchFile)) \<noteq> \<lparr>HighScores = Some Map.empty\<rparr>
   \<and> lookupScore (scores (mainStart exampleDecode (Some mismatchFile))) ''Ann'' = 50
   \<and> lookupScore (scores (mainStart exampleDecode (Some mismatchFile))) ''Cy'' = 7"
proof -
  have ne: "[''Ann'' \<mapsto> 50::int, ''Bob'' \<mapsto> 0, ''Cy'' \<mapsto> 7] \<noteq> Map.empty"
    by simp
  show ?thesis
    using ne by (simp add: mainStart_def loadScores_def exampleDecode_eval lookupScore_def)
qed

end
